theory Spec2Isabelle
  imports Main
begin

section \<open>JavaScript values\<close>

text \<open>
  Payload fields of the socket events are strings that may be missing. A field is a
  \<open>string option\<close>: \<open>None\<close> is \<open>undefined\<close> (or \<open>null\<close>), \<open>Some s\<close> is the string \<open>s\<close>.
  A string is a list of code units below 256. A value is truthy when it is a non-empty
  string; \<open>js_or a b\<close> is \<open>a || b\<close>.
\<close>

definition truthy :: "string option \<Rightarrow> bool" where
  "truthy v = (case v of None \<Rightarrow> False | Some s \<Rightarrow> s \<noteq> [])"

definition js_or :: "string option \<Rightarrow> string option \<Rightarrow> string option" where
  "js_or a b = (if truthy a then a else b)"

text \<open>The white space and line terminators that \<open>String.prototype.trim\<close> strips, below 256.\<close>

definition js_whitespace :: "char \<Rightarrow> bool" where
  "js_whitespace c = ((of_char c :: nat) \<in> {9, 10, 11, 12, 13, 32, 160})"

definition trim :: "string \<Rightarrow> string" where
  "trim s = rev (dropWhile js_whitespace (rev (dropWhile js_whitespace s)))"

text \<open>
  \<open>toUpperCase\<close> on a character of a number written in base 36 (a digit, a letter from
  \<open>a\<close> to \<open>z\<close>, the point): a letter becomes its capital.
\<close>

definition to_upper :: "char \<Rightarrow> char" where
  "to_upper c =
     (let n = (of_char c :: nat) in if 97 \<le> n \<and> n \<le> 122 then char_of (n - 32) else c)"

text \<open>An element of an array handed to a client: a string, or \<open>undefined\<close>.\<close>

datatype jsval = Undefined | Str string

datatype error = TypeError string | SqliteError string

fun error_message :: "error \<Rightarrow> string" where
  "error_message (TypeError m) = m"
| "error_message (SqliteError m) = m"

section \<open>The room registry: \<open>const rooms = {}\<close>\<close>

text \<open>
  \<open>rooms\<close> is a plain object used as a dictionary from room id to a \<open>Set\<close> of user names.
  A \<open>Set\<close> iterates in insertion order and holds no element twice: it is the list of its
  elements.

  A plain object inherits from \<open>Object.prototype\<close>, so \<open>rooms[roomId]\<close> finds the object's
  own property first and an inherited one otherwise. What is inherited is no \<open>Set\<close>: it
  has neither \<open>add\<close> nor \<open>delete\<close>, and \<open>Array.from\<close> reads its \<open>length\<close>.
  \<open>Builtin n\<close> is such an object, with \<open>n\<close> what \<open>Array.from\<close> takes as its length
  (the arity of a function; 0 for \<open>Object.prototype\<close> itself, which has no \<open>length\<close>).
\<close>

datatype slot = Members "string list" | Builtin nat

type_synonym registry = "string \<rightharpoonup> slot"

text \<open>
  The properties of \<open>Object.prototype\<close> (ECMAScript, with Annex B), which is not code of
  the repository: the functions with their arities, and the accessor \<open>__proto__\<close>, which
  reads as \<open>Object.prototype\<close>.
\<close>

definition object_prototype :: "string \<rightharpoonup> slot" where
  "object_prototype = map_of
     [(''constructor'', Builtin 1),
      (''hasOwnProperty'', Builtin 1),
      (''isPrototypeOf'', Builtin 1),
      (''propertyIsEnumerable'', Builtin 1),
      (''toLocaleString'', Builtin 0),
      (''toString'', Builtin 0),
      (''valueOf'', Builtin 0),
      (''__defineGetter__'', Builtin 2),
      (''__defineSetter__'', Builtin 2),
      (''__lookupGetter__'', Builtin 1),
      (''__lookupSetter__'', Builtin 1),
      (''__proto__'', Builtin 0)]"

text \<open>\<open>rooms[roomId]\<close>, read.\<close>

definition rooms_get :: "registry \<Rightarrow> string \<Rightarrow> slot option" where
  "rooms_get rooms roomId =
     (case rooms roomId of Some v \<Rightarrow> Some v | None \<Rightarrow> object_prototype roomId)"

text \<open>
  \<open>rooms[roomId] = v\<close>: an own property is created or overwritten, but for \<open>__proto__\<close>,
  where the inherited setter runs; the only value ever assigned there is
  \<open>Object.prototype\<close>, which is the prototype already.
\<close>

definition rooms_set :: "registry \<Rightarrow> string \<Rightarrow> slot \<Rightarrow> registry" where
  "rooms_set rooms roomId v = (if roomId = ''__proto__'' then rooms else rooms(roomId \<mapsto> v))"

definition set_add :: "string list \<Rightarrow> string \<Rightarrow> string list" where
  "set_add us u = (if u \<in> set us then us else us @ [u])"

definition set_delete :: "string list \<Rightarrow> string \<Rightarrow> string list" where
  "set_delete us u = removeAll u us"

text \<open>
  \<^verbatim>\<open>function addParticipant(roomId, username) {
  rooms[roomId] = rooms[roomId] || new Set();
  rooms[roomId].add(username);
}\<close>
  The result is the exception thrown, if any, and the registry as the call leaves it.
\<close>

definition addParticipant :: "registry \<Rightarrow> string \<Rightarrow> string \<Rightarrow> error option \<times> registry" where
  "addParticipant rooms roomId username =
     (let rooms1 = rooms_set rooms roomId
                     (case rooms_get rooms roomId of Some v \<Rightarrow> v | None \<Rightarrow> Members [])
      in case rooms_get rooms1 roomId of
           Some (Members us) \<Rightarrow> (None, rooms1(roomId \<mapsto> Members (set_add us username)))
         | _ \<Rightarrow> (Some (TypeError ''rooms[roomId].add is not a function''), rooms1))"

text \<open>
  \<^verbatim>\<open>function removeParticipant(roomId, username) {
  if (!rooms[roomId]) return;
  rooms[roomId].delete(username);
  if (rooms[roomId].size === 0) delete rooms[roomId];
}\<close>
\<close>

definition removeParticipant :: "registry \<Rightarrow> string \<Rightarrow> string \<Rightarrow> error option \<times> registry" where
  "removeParticipant rooms roomId username =
     (case rooms_get rooms roomId of
        None \<Rightarrow> (None, rooms)
      | Some (Builtin n) \<Rightarrow> (Some (TypeError ''rooms[roomId].delete is not a function''), rooms)
      | Some (Members us) \<Rightarrow>
          (let rooms1 = rooms(roomId \<mapsto> Members (set_delete us username))
           in if length (set_delete us username) = 0 then (None, rooms1(roomId := None))
              else (None, rooms1)))"

text \<open>
  \<^verbatim>\<open>function listParticipants(roomId) {
  return rooms[roomId] ? Array.from(rooms[roomId]) : [];
}\<close>
\<close>

definition listParticipants :: "registry \<Rightarrow> string \<Rightarrow> jsval list" where
  "listParticipants rooms roomId =
     (case rooms_get rooms roomId of
        None \<Rightarrow> []
      | Some (Members us) \<Rightarrow> map Str us
      | Some (Builtin n) \<Rightarrow> replicate n Undefined)"

section \<open>The message store: table \<open>messages\<close>\<close>

text \<open>
  A row of the table, and also the object a handler builds before storing it
  (\<open>msg_id\<close> is the column \<open>id\<close>, \<open>mtype\<close> the column \<open>type\<close>). The table is the list of
  its rows in the order of their insertion (the order of SQLite's rowid, since no row
  is ever deleted).
\<close>

record message =
  msg_id :: string
  room_id :: string
  username :: string
  content :: string
  mtype :: string
  filename :: "string option"
  mime :: "string option"
  created_at :: int

text \<open>
  What a handler takes from its environment: the string \<open>uuidv4()\<close> returns, the clock
  \<open>Date.now()\<close> as the handler reads it and as \<open>storeMessage\<close> would read it, the
  message of the exception the database raises on the write for a reason of its own
  (I/O, a full disk), if any, and the string \<open>Math.random().toString(36)\<close>.
\<close>

record env =
  uuid :: string
  now :: int
  now_store :: int
  store_fault :: "string option"
  rnd :: string

text \<open>
  \<^verbatim>\<open>function storeMessage(msg) {
  const stmt = db.prepare(`INSERT INTO messages (...) VALUES (...)`);
  return stmt.run({ id: msg.id, room_id: msg.room_id, username: msg.username,
    content: msg.content, type: msg.type || 'text', filename: msg.filename || null,
    mime: msg.mime || null, created_at: msg.created_at || Date.now() });
}\<close>
  The column \<open>id\<close> is the primary key (and has a unique index): the insertion of a row
  whose id is in the table raises. \<open>Inl\<close> is the exception, \<open>Inr\<close> the table after the
  insertion.
\<close>

definition row_of :: "env \<Rightarrow> message \<Rightarrow> message" where
  "row_of e msg =
     \<lparr>msg_id = msg_id msg, room_id = room_id msg, username = username msg,
      content = content msg,
      mtype = (if mtype msg \<noteq> [] then mtype msg else ''text''),
      filename = js_or (filename msg) None,
      mime = js_or (mime msg) None,
      created_at = (if created_at msg \<noteq> 0 then created_at msg else now_store e)\<rparr>"

definition storeMessage :: "env \<Rightarrow> message list \<Rightarrow> message \<Rightarrow> error + message list" where
  "storeMessage e db msg =
     (case store_fault e of
        Some m \<Rightarrow> Inl (SqliteError m)
      | None \<Rightarrow>
          if msg_id (row_of e msg) \<in> set (map msg_id db)
          then Inl (SqliteError ''UNIQUE constraint failed: messages.id'')
          else Inr (db @ [row_of e msg]))"

text \<open>
  \<^verbatim>\<open>function getRecentMessages(roomId, limit = 50) {
  const stmt = db.prepare(`SELECT ... FROM messages WHERE room_id = ?
    ORDER BY created_at DESC LIMIT ?`);
  const rows = stmt.all(roomId, limit);
  return rows.reverse(); // oldest -> newest
}\<close>
  The limit is \<open>None\<close> when the caller passes none, and is 50 then.
  \<open>LIMIT n\<close> keeps the first \<open>n\<close> rows, and every row when \<open>n\<close> is negative.
  \<open>ORDER BY created_at DESC\<close> names one key. SQLite answers the query from the index
  \<open>idx_messages_room_created (room_id, created_at DESC)\<close>, whose entries with the same
  room and the same time stand in the order of their rowid: rows with one \<open>created_at\<close>
  are retrieved in the order of their insertion, which is what a stable sort of the
  table by descending \<open>created_at\<close> gives.
\<close>

definition sql_limit :: "int \<Rightarrow> 'a list \<Rightarrow> 'a list" where
  "sql_limit n xs = (if n < 0 then xs else take (nat n) xs)"

definition select_recent :: "message list \<Rightarrow> string \<Rightarrow> int \<Rightarrow> message list" where
  "select_recent db roomId limit =
     sql_limit limit (sort_key (\<lambda>m. - created_at m) (filter (\<lambda>m. room_id m = roomId) db))"

definition getRecentMessages :: "message list \<Rightarrow> string \<Rightarrow> int option \<Rightarrow> message list" where
  "getRecentMessages db roomId limit =
     rev (select_recent db roomId (case limit of None \<Rightarrow> 50 | Some n \<Rightarrow> n))"

section \<open>Connections, events and the server's state\<close>

text \<open>
  \<open>socket.data\<close> of a connection: both fields are \<open>null\<close> until the connection joins.
\<close>

record socket_data =
  sd_username :: "string option"
  sd_roomId :: "string option"

text \<open>
  The state of the process: the registry, the table, the rooms of Socket.IO (the set of
  connection ids in each; Socket.IO is not code of the repository, and the room that
  every connection has under its own id is left out) and \<open>socket.data\<close> of every
  connection.
\<close>

record server =
  rooms :: registry
  messages :: "message list"
  adapter :: "string \<Rightarrow> string set"
  sockets :: "string \<Rightarrow> socket_data"

definition initial :: server where
  "initial = \<lparr>rooms = Map.empty, messages = [], adapter = (\<lambda>r. {}),
              sockets = (\<lambda>s. \<lparr>sd_username = None, sd_roomId = None\<rparr>)\<rparr>"

text \<open>The events the server emits, with their payloads in the order of the source.\<close>

datatype event =
    Joined string "jsval list"
  | UserJoined string "jsval list"
  | ChatMessage string string string int string "string option" "string option"
  | FileEvent string string string "string option" int
  | Participants "jsval list"
  | UserLeft string "jsval list"
  | ErrorMessage string

datatype ack = AckOk string | AckError string

text \<open>
  What a handler does, in the order in which it does it: a row inserted into the table,
  an event emitted to a set of connections, the acknowledgment callback called.
\<close>

datatype effect = Inserted message | Emit "string set" event | Ack ack

text \<open>
  The three delivery sets of Socket.IO: \<open>socket.emit\<close> reaches the connection itself,
  \<open>socket.to(room).emit\<close> the connections of the room but the sender,
  \<open>io.to(room).emit\<close> every connection of the room.
\<close>

definition to_self :: "string \<Rightarrow> string set" where
  "to_self sid = {sid}"

definition to_others :: "server \<Rightarrow> string \<Rightarrow> string \<Rightarrow> string set" where
  "to_others st sid room = adapter st room - {sid}"

definition to_room :: "server \<Rightarrow> string \<Rightarrow> string set" where
  "to_room st room = adapter st room"

definition socket_join :: "server \<Rightarrow> string \<Rightarrow> string \<Rightarrow> server" where
  "socket_join st sid room = st\<lparr>adapter := (adapter st)(room := insert sid (adapter st room))\<rparr>"

definition socket_leave :: "server \<Rightarrow> string \<Rightarrow> string \<Rightarrow> server" where
  "socket_leave st sid room = st\<lparr>adapter := (adapter st)(room := adapter st room - {sid})\<rparr>"

section \<open>The handlers of a connection\<close>

text \<open>
  A handler takes the state, the id of the connection and the payload of the event, and
  returns the state it leaves and its effects in order. The payload is \<open>None\<close> when the
  handler's parameter is \<open>undefined\<close>: the client emitted the event with no argument.
  The handler of \<open>disconnecting\<close> calls \<open>removeParticipant\<close> for every room of the
  connection, as \<open>end-session\<close> does for one.

  The payload \<open>{ roomId, username }\<close> of \<open>join-room\<close> and of \<open>end-session\<close>:
\<close>

record room_payload =
  rp_roomId :: "string option"
  rp_username :: "string option"

text \<open>The payload of \<open>chat-message\<close> and \<open>message\<close>.\<close>

record message_payload =
  p_roomId :: "string option"
  p_text :: "string option"
  p_username :: "string option"
  p_type :: "string option"
  p_filename :: "string option"
  p_mime :: "string option"

text \<open>The payload of \<open>file\<close>.\<close>

record file_payload =
  f_roomId :: "string option"
  f_username :: "string option"
  f_url :: "string option"
  f_filename :: "string option"
  f_mime :: "string option"

definition str_of :: "string option \<Rightarrow> string" where
  "str_of v = (case v of Some s \<Rightarrow> s | None \<Rightarrow> [])"

text \<open>\<^verbatim>\<open>'room-' + Math.random().toString(36).slice(2, 9).toUpperCase()\<close>\<close>

definition mint_room_id :: "env \<Rightarrow> string" where
  "mint_room_id e = ''room-'' @ map to_upper (take 7 (drop 2 (rnd e)))"

text \<open>
  The room of a join:
  \<^verbatim>\<open>if (!roomId) roomId = 'room-' + Math.random().toString(36).slice(2, 9).toUpperCase();\<close>
\<close>

definition join_room_id :: "env \<Rightarrow> room_payload \<Rightarrow> string" where
  "join_room_id e p = (if truthy (rp_roomId p) then str_of (rp_roomId p) else mint_room_id e)"

text \<open>\<^verbatim>\<open>(username && String(username).slice(0, 48)) || 'Anonymous'\<close>\<close>

definition join_name :: "string option \<Rightarrow> string" where
  "join_name u =
     (let s = take 48 (str_of u) in if truthy u \<and> s \<noteq> [] then s else ''Anonymous'')"

text \<open>
  The object of a \<open>chat-message\<close> event, built from a message in the history replay and
  in the broadcast alike: id, username, text, timestamp, type, filename, mime.
\<close>

definition chat_event :: "message \<Rightarrow> event" where
  "chat_event m =
     ChatMessage (msg_id m) (username m) (content m) (created_at m) (mtype m) (filename m) (mime m)"

text \<open>
  \<^verbatim>\<open>socket.on('join-room', ({ roomId, username }) => {
  try {
    if (!roomId) roomId = 'room-' + Math.random().toString(36).slice(2, 9).toUpperCase();
    const name = (username && String(username).slice(0, 48)) || 'Anonymous';
    socket.join(roomId);
    socket.data.roomId = roomId;
    socket.data.username = name;
    addParticipant(roomId, name);
    const participants = listParticipants(roomId);
    socket.emit('joined', { roomId, participants });
    socket.to(roomId).emit('user-joined', { username: name, participants });
    const history = getRecentMessages(roomId, 50);
    if (history && history.length) {
      history.forEach(m => { socket.emit('chat-message', { ... }); });
    }
  } catch (err) {
    socket.emit('error-message', { message: 'join-room failed: ' + String(err.message || err) });
  }
});\<close>
  The parameter is destructured with no default: an event without a payload raises
  before the \<open>try\<close> is entered, and the exception leaves the handler. The first
  component of the result is that exception, if any.
\<close>

definition join_room ::
  "env \<Rightarrow> server \<Rightarrow> string \<Rightarrow> room_payload option \<Rightarrow> error option \<times> server \<times> effect list" where
  "join_room e st sid payload =
     (case payload of
        None \<Rightarrow> (Some (TypeError ''Cannot destructure property roomId of undefined''), st, [])
      | Some p \<Rightarrow>
          (let roomId = join_room_id e p;
               name = join_name (rp_username p);
               st1 = socket_join st sid roomId;
               st2 = st1\<lparr>sockets := (sockets st1)
                        (sid := \<lparr>sd_username = Some name, sd_roomId = Some roomId\<rparr>)\<rparr>
           in case addParticipant (rooms st2) roomId name of
                (Some err, rooms') \<Rightarrow>
                  (None, st2\<lparr>rooms := rooms'\<rparr>,
                   [Emit (to_self sid) (ErrorMessage (''join-room failed: '' @ error_message err))])
              | (None, rooms') \<Rightarrow>
                  (let st3 = st2\<lparr>rooms := rooms'\<rparr>;
                       participants = listParticipants (rooms st3) roomId;
                       history = getRecentMessages (messages st3) roomId (Some 50)
                   in (None, st3,
                       [Emit (to_self sid) (Joined roomId participants),
                        Emit (to_others st3 sid roomId) (UserJoined name participants)]
                       @ map (\<lambda>m. Emit (to_self sid) (chat_event m)) history))))"

text \<open>
  The object \<open>messageData\<close> of \<open>handleIncomingMessage\<close>:
  \<^verbatim>\<open>const roomId = msg.roomId || socket.data.roomId;
const text = (msg.text || '').toString().trim();
const username = msg.username || socket.data.username || 'Anonymous';
...
const messageData = { id: 'msg-' + uuidv4(), room_id: roomId, username, content: text,
  type: msg.type || 'text', filename: msg.filename || null, mime: msg.mime || null,
  created_at: Date.now() };\<close>
\<close>

definition send_room :: "server \<Rightarrow> string \<Rightarrow> message_payload \<Rightarrow> string option" where
  "send_room st sid msg = js_or (p_roomId msg) (sd_roomId (sockets st sid))"

definition send_text :: "message_payload \<Rightarrow> string" where
  "send_text msg = trim (str_of (js_or (p_text msg) (Some [])))"

definition messageData :: "env \<Rightarrow> server \<Rightarrow> string \<Rightarrow> message_payload \<Rightarrow> message" where
  "messageData e st sid msg =
     \<lparr>msg_id = ''msg-'' @ uuid e,
      room_id = str_of (send_room st sid msg),
      username = str_of (js_or (js_or (p_username msg) (sd_username (sockets st sid)))
                               (Some ''Anonymous'')),
      content = send_text msg,
      mtype = str_of (js_or (p_type msg) (Some ''text'')),
      filename = js_or (p_filename msg) None,
      mime = js_or (p_mime msg) None,
      created_at = now e\<rparr>"

text \<open>
  \<^verbatim>\<open>function handleIncomingMessage(socket, msg = {}, ack) {
  try {
    ...
    if (!roomId || !text) {
      if (typeof ack === 'function') ack({ ok: false, error: 'Invalid payload' });
      return;
    }
    const messageData = { ... };
    try {
      storeMessage(messageData);
    } catch (dbErr) {
      if (typeof ack === 'function') ack({ ok: false, error: String(dbErr.message || dbErr) });
      socket.emit('error-message', { message: 'Store failed: ' + String(dbErr.message || dbErr) });
      return;
    }
    io.to(roomId).emit('chat-message', { id: messageData.id, ... });
    if (typeof ack === 'function') ack({ ok: true, id: messageData.id });
  } catch (err) { ... }
}\<close>
  \<open>ack\<close> says whether the parameter \<open>ack\<close> is a function.
\<close>

definition handleIncomingMessage ::
  "env \<Rightarrow> server \<Rightarrow> string \<Rightarrow> message_payload \<Rightarrow> bool \<Rightarrow> server \<times> effect list" where
  "handleIncomingMessage e st sid msg ack =
     (if \<not> truthy (send_room st sid msg) \<or> send_text msg = []
      then (st, if ack then [Ack (AckError ''Invalid payload'')] else [])
      else
        (case storeMessage e (messages st) (messageData e st sid msg) of
           Inl dbErr \<Rightarrow>
             (st, (if ack then [Ack (AckError (error_message dbErr))] else [])
                  @ [Emit (to_self sid) (ErrorMessage (''Store failed: '' @ error_message dbErr))])
         | Inr db' \<Rightarrow>
             (st\<lparr>messages := db'\<rparr>,
              [Inserted (row_of e (messageData e st sid msg)),
               Emit (to_room st (room_id (messageData e st sid msg)))
                    (chat_event (messageData e st sid msg))]
              @ (if ack then [Ack (AckOk (msg_id (messageData e st sid msg)))] else []))))"

text \<open>
  \<^verbatim>\<open>socket.on('chat-message', (payload, ack) => {
  handleIncomingMessage(socket, payload || {}, ack);
});\<close>
  and the same for \<open>message\<close>. Socket.IO hands the handler the arguments of the client's
  \<open>emit\<close> in their order, the callback last. \<open>payload\<close> is the object the client sent, if
  any, and \<open>callback\<close> says whether it passed a callback. When the client passed a
  callback and no object, the callback is the handler's first parameter: \<open>payload || {}\<close>
  is that function, which has none of the fields, and the parameter \<open>ack\<close> is
  \<open>undefined\<close>.
\<close>

definition on_chat_message ::
  "env \<Rightarrow> server \<Rightarrow> string \<Rightarrow> message_payload option \<Rightarrow> bool \<Rightarrow> server \<times> effect list" where
  "on_chat_message e st sid payload callback =
     handleIncomingMessage e st sid
       (case payload of
          Some p \<Rightarrow> p
        | None \<Rightarrow> \<lparr>p_roomId = None, p_text = None, p_username = None, p_type = None,
                    p_filename = None, p_mime = None\<rparr>)
       (case payload of Some p \<Rightarrow> callback | None \<Rightarrow> False)"

text \<open>
  \<^verbatim>\<open>socket.on('file', (fileMsg = {}) => {
  try {
    const roomId = fileMsg.roomId || socket.data.roomId;
    const username = fileMsg.username || socket.data.username || 'Anonymous';
    if (!roomId || !fileMsg.url) {
      socket.emit('error-message', { message: 'Invalid file payload' });
      return;
    }
    const fileId = 'file-' + uuidv4();
    const fileData = { id: fileId, room_id: roomId, username, content: fileMsg.url,
      type: 'file', filename: fileMsg.filename || null, mime: fileMsg.mime || null,
      created_at: Date.now() };
    storeMessage(fileData);
    io.to(roomId).emit('file', { id: fileData.id, username: fileData.username,
      url: fileMsg.url, filename: fileMsg.filename, ts: fileData.created_at });
  } catch (err) {
    socket.emit('error-message', { message: 'File send failed: ' + String(err.message || err) });
  }
});\<close>
\<close>

definition file_room :: "server \<Rightarrow> string \<Rightarrow> file_payload \<Rightarrow> string option" where
  "file_room st sid fileMsg = js_or (f_roomId fileMsg) (sd_roomId (sockets st sid))"

definition fileData :: "env \<Rightarrow> server \<Rightarrow> string \<Rightarrow> file_payload \<Rightarrow> message" where
  "fileData e st sid fileMsg =
     \<lparr>msg_id = ''file-'' @ uuid e,
      room_id = str_of (file_room st sid fileMsg),
      username = str_of (js_or (js_or (f_username fileMsg) (sd_username (sockets st sid)))
                               (Some ''Anonymous'')),
      content = str_of (f_url fileMsg),
      mtype = ''file'',
      filename = js_or (f_filename fileMsg) None,
      mime = js_or (f_mime fileMsg) None,
      created_at = now e\<rparr>"

definition file_payload_of :: "file_payload option \<Rightarrow> file_payload" where
  "file_payload_of payload =
     (case payload of
        Some p \<Rightarrow> p
      | None \<Rightarrow> \<lparr>f_roomId = None, f_username = None, f_url = None, f_filename = None,
                  f_mime = None\<rparr>)"

definition on_file ::
  "env \<Rightarrow> server \<Rightarrow> string \<Rightarrow> file_payload option \<Rightarrow> server \<times> effect list" where
  "on_file e st sid payload =
     (let fileMsg = file_payload_of payload
      in if \<not> truthy (file_room st sid fileMsg) \<or> \<not> truthy (f_url fileMsg)
         then (st, [Emit (to_self sid) (ErrorMessage ''Invalid file payload'')])
         else
           (case storeMessage e (messages st) (fileData e st sid fileMsg) of
              Inl err \<Rightarrow>
                (st, [Emit (to_self sid)
                        (ErrorMessage (''File send failed: '' @ error_message err))])
            | Inr db' \<Rightarrow>
                (st\<lparr>messages := db'\<rparr>,
                 [Inserted (row_of e (fileData e st sid fileMsg)),
                  Emit (to_room st (room_id (fileData e st sid fileMsg)))
                    (FileEvent (msg_id (fileData e st sid fileMsg))
                       (username (fileData e st sid fileMsg))
                       (str_of (f_url fileMsg)) (f_filename fileMsg)
                       (created_at (fileData e st sid fileMsg)))])))"

text \<open>
  \<^verbatim>\<open>socket.on('end-session', ({ roomId, username } = {}) => {
  try {
    const r = roomId || socket.data.roomId;
    const name = username || socket.data.username;
    if (r && name) {
      socket.leave(r);
      removeParticipant(r, name);
      const participants = listParticipants(r);
      io.to(r).emit('participants', { participants });
      io.to(r).emit('user-left', { username: name, participants });
    }
  } catch (err) {
    console.error('end-session error:', err);
  }
});\<close>
\<close>

definition end_payload :: "room_payload option \<Rightarrow> room_payload" where
  "end_payload payload =
     (case payload of Some p \<Rightarrow> p | None \<Rightarrow> \<lparr>rp_roomId = None, rp_username = None\<rparr>)"

definition leave_room :: "server \<Rightarrow> string \<Rightarrow> room_payload option \<Rightarrow> string option" where
  "leave_room st sid payload = js_or (rp_roomId (end_payload payload)) (sd_roomId (sockets st sid))"

definition leave_name :: "server \<Rightarrow> string \<Rightarrow> room_payload option \<Rightarrow> string option" where
  "leave_name st sid payload =
     js_or (rp_username (end_payload payload)) (sd_username (sockets st sid))"

definition end_session :: "server \<Rightarrow> string \<Rightarrow> room_payload option \<Rightarrow> server \<times> effect list" where
  "end_session st sid payload =
     (let r = leave_room st sid payload;
          name = leave_name st sid payload
      in if truthy r \<and> truthy name
         then
           (let st1 = socket_leave st sid (str_of r)
            in case removeParticipant (rooms st1) (str_of r) (str_of name) of
                 (Some err, rooms') \<Rightarrow> (st1\<lparr>rooms := rooms'\<rparr>, [])
               | (None, rooms') \<Rightarrow>
                   (let st2 = st1\<lparr>rooms := rooms'\<rparr>;
                        participants = listParticipants (rooms st2) (str_of r)
                    in (st2,
                        [Emit (to_room st2 (str_of r)) (Participants participants),
                         Emit (to_room st2 (str_of r)) (UserLeft (str_of name) participants)])))
         else (st, []))"

section \<open>Sequences of registry operations\<close>

text \<open>
  A join adds a name to a room, a leave or a disconnection removes one. \<open>run_ops\<close> runs a
  sequence of them on the registry of a fresh process, an exception being caught by the
  handler that called.
\<close>

datatype registry_op = Add string string | Remove string string

fun apply_op :: "registry \<Rightarrow> registry_op \<Rightarrow> registry" where
  "apply_op reg (Add r u) = snd (addParticipant reg r u)"
| "apply_op reg (Remove r u) = snd (removeParticipant reg r u)"

definition run_ops :: "registry_op list \<Rightarrow> registry" where
  "run_ops ops = foldl apply_op Map.empty ops"

text \<open>
  In the words of the specification: the user names that have joined the room and not
  subsequently left it.
\<close>

definition joined_not_left :: "registry_op list \<Rightarrow> string \<Rightarrow> string set" where
  "joined_not_left ops r =
     {u. \<exists>i < length ops. ops ! i = Add r u \<and> (\<forall>j. i < j \<and> j < length ops \<longrightarrow> ops ! j \<noteq> Remove r u)}"

text \<open>The room ids that name a property of \<open>Object.prototype\<close>.\<close>

definition inherited :: "string \<Rightarrow> bool" where
  "inherited roomId = (object_prototype roomId \<noteq> None)"

section \<open>Reading the registry and a handler's effects\<close>

text \<open>
  The names of a room's own \<open>Set\<close>, and whether \<open>rooms[roomId]\<close> is an object that is no
  \<open>Set\<close>: on such a room \<open>add\<close> and \<open>delete\<close> raise.
\<close>

definition members_of :: "registry \<Rightarrow> string \<Rightarrow> string list" where
  "members_of reg r = (case reg r of Some (Members us) \<Rightarrow> us | _ \<Rightarrow> [])"

definition names :: "registry \<Rightarrow> string \<Rightarrow> string set" where
  "names reg r = set (members_of reg r)"

definition shadowed :: "registry \<Rightarrow> string \<Rightarrow> bool" where
  "shadowed reg r = (case rooms_get reg r of Some (Builtin n) \<Rightarrow> True | _ \<Rightarrow> False)"

text \<open>
  The registries that the operations build from the empty one: a \<open>Set\<close> is never empty
  and stands at a room id that \<open>Object.prototype\<close> does not name; what stands at an id
  that it names is the inherited object.
\<close>

definition wf_registry :: "registry \<Rightarrow> bool" where
  "wf_registry reg =
     (\<forall>r. case reg r of
            None \<Rightarrow> True
          | Some (Members us) \<Rightarrow> us \<noteq> [] \<and> distinct us \<and> \<not> inherited r
          | Some (Builtin n) \<Rightarrow> inherited r)"

text \<open>The time a row is stamped with: the handler's clock, and the store's when that is 0.\<close>

definition server_time :: "env \<Rightarrow> int" where
  "server_time e = (if now e \<noteq> 0 then now e else now_store e)"

text \<open>
  The rows a run inserted, the connections that were sent a \<open>chat-message\<close> or a \<open>file\<close>
  event (the broadcast of a message), the connections that were sent any event, and the
  replies given to the acknowledgment callback.
\<close>

fun inserted :: "effect list \<Rightarrow> message list" where
  "inserted [] = []"
| "inserted (Inserted m # es) = m # inserted es"
| "inserted (Emit R ev # es) = inserted es"
| "inserted (Ack a # es) = inserted es"

fun is_message_event :: "event \<Rightarrow> bool" where
  "is_message_event (ChatMessage i u t ts ty fn mi) = True"
| "is_message_event (FileEvent i u url fn ts) = True"
| "is_message_event (Joined r ps) = False"
| "is_message_event (UserJoined u ps) = False"
| "is_message_event (Participants ps) = False"
| "is_message_event (UserLeft u ps) = False"
| "is_message_event (ErrorMessage m) = False"

fun message_recipients :: "effect list \<Rightarrow> string set" where
  "message_recipients [] = {}"
| "message_recipients (Emit R ev # es) =
     (if is_message_event ev then R \<union> message_recipients es else message_recipients es)"
| "message_recipients (Inserted m # es) = message_recipients es"
| "message_recipients (Ack a # es) = message_recipients es"

fun notified :: "effect list \<Rightarrow> string set" where
  "notified [] = {}"
| "notified (Emit R ev # es) = R \<union> notified es"
| "notified (Inserted m # es) = notified es"
| "notified (Ack a # es) = notified es"

fun acks :: "effect list \<Rightarrow> ack list" where
  "acks [] = []"
| "acks (Ack a # es) = a # acks es"
| "acks (Emit R ev # es) = acks es"
| "acks (Inserted m # es) = acks es"

section \<open>A scenario\<close>

text \<open>
  Two connections \<open>A\<close> and \<open>B\<close> of a fresh process join the room \<open>X\<close> as \<open>ann\<close> and \<open>bob\<close>.
\<close>

definition env1 :: env where
  "env1 = \<lparr>uuid = ''u1'', now = 1000, now_store = 1000, store_fault = None,
            rnd = ''0.4fzyo82mvyr''\<rparr>"

definition env_full :: env where
  "env_full = \<lparr>uuid = ''u1'', now = 1000, now_store = 1000,
                store_fault = Some ''database or disk is full'', rnd = ''0.4fzyo82mvyr''\<rparr>"

definition ann :: room_payload where
  "ann = \<lparr>rp_roomId = Some ''X'', rp_username = Some ''ann''\<rparr>"

definition bob :: room_payload where
  "bob = \<lparr>rp_roomId = Some ''X'', rp_username = Some ''bob''\<rparr>"

definition ann_joined :: server where
  "ann_joined = fst (snd (join_room env1 initial ''A'' (Some ann)))"

definition two_joined :: server where
  "two_joined = fst (snd (join_room env1 ann_joined ''B'' (Some bob)))"

text \<open>A message with white space around its text, and one whose text is white space.\<close>

definition hello :: message_payload where
  "hello = \<lparr>p_roomId = None, p_text = Some ''  hello '', p_username = None, p_type = None,
            p_filename = None, p_mime = None\<rparr>"

definition blank :: message_payload where
  "blank = \<lparr>p_roomId = Some ''X'', p_text = Some ''   '', p_username = Some ''ann'',
            p_type = None, p_filename = None, p_mime = None\<rparr>"

text \<open>The state after \<open>ann\<close> has joined and sent \<open>hello\<close>, and a join that names nothing.\<close>

definition ann_said_hello :: server where
  "ann_said_hello = fst (handleIncomingMessage env1 ann_joined ''A'' hello False)"

definition nameless :: room_payload where
  "nameless = \<lparr>rp_roomId = None, rp_username = Some []\<rparr>"

text \<open>A table of four rows in two rooms; the last two rows have one \<open>created_at\<close>.\<close>

definition m1 :: message where
  "m1 = \<lparr>msg_id = ''msg-1'', room_id = ''X'', username = ''ann'', content = ''one'',
         mtype = ''text'', filename = None, mime = None, created_at = 1000\<rparr>"
definition m2 :: message where
  "m2 = \<lparr>msg_id = ''msg-2'', room_id = ''Y'', username = ''bob'', content = ''two'',
         mtype = ''text'', filename = None, mime = None, created_at = 1001\<rparr>"
definition m3 :: message where
  "m3 = \<lparr>msg_id = ''msg-3'', room_id = ''X'', username = ''bob'', content = ''three'',
         mtype = ''text'', filename = None, mime = None, created_at = 1002\<rparr>"
definition m4 :: message where
  "m4 = \<lparr>msg_id = ''msg-4'', room_id = ''X'', username = ''ann'', content = ''four'',
         mtype = ''text'', filename = None, mime = None, created_at = 1002\<rparr>"

section \<open>Lemmas: the registry\<close>

lemma object_prototype_Builtin: "object_prototype r = Some v \<Longrightarrow> \<exists>n. v = Builtin n"
  by (auto simp: object_prototype_def split: if_splits)

lemma object_prototype_not_Members [simp]: "object_prototype r \<noteq> Some (Members us)"
  using object_prototype_Builtin by blast

lemma rooms_get_plain: "\<not> inherited r \<Longrightarrow> rooms_get reg r = reg r"
  by (simp add: rooms_get_def inherited_def split: option.splits)

lemma rooms_get_Members: "rooms_get reg r = Some (Members us) \<longleftrightarrow> reg r = Some (Members us)"
  by (simp add: rooms_get_def split: option.splits)

lemma removeParticipant_idem:
  "snd (removeParticipant (snd (removeParticipant reg r u)) r u) = snd (removeParticipant reg r u)"
proof (cases "rooms_get reg r")
  case None
  then show ?thesis by (simp add: removeParticipant_def)
next
  case (Some v)
  show ?thesis
  proof (cases v)
    case (Builtin n)
    with Some show ?thesis by (simp add: removeParticipant_def)
  next
    case (Members us)
    with Some have own: "reg r = Some (Members us)"
      by (auto simp: rooms_get_def object_prototype_def split: option.splits if_splits)
    show ?thesis
    proof (cases "set_delete us u = []")
      case True
      with Some Members have 1: "snd (removeParticipant reg r u) = reg(r := None)"
        by (simp add: removeParticipant_def)
      show ?thesis unfolding 1
        by (auto simp: removeParticipant_def rooms_get_def object_prototype_def
            split: option.splits slot.splits if_splits)
    next
      case False
      with Some Members have 1: "snd (removeParticipant reg r u) = reg(r \<mapsto> Members (set_delete us u))"
        by (simp add: removeParticipant_def)
      show ?thesis unfolding 1 using False
        by (simp add: removeParticipant_def rooms_get_def set_delete_def)
    qed
  qed
qed

lemma removeParticipant_absent:
  "reg r = None \<Longrightarrow> snd (removeParticipant reg r u) = reg"
  by (auto simp: removeParticipant_def rooms_get_def split: option.splits slot.splits)

lemma joined_not_left_snoc:
  "joined_not_left (ops @ [x]) r =
     {u. (u \<in> joined_not_left ops r \<and> x \<noteq> Remove r u) \<or> x = Add r u}"
proof (rule set_eqI, rule iffI)
  fix u
  assume "u \<in> joined_not_left (ops @ [x]) r"
  then obtain i where i: "i < Suc (length ops)" "(ops @ [x]) ! i = Add r u"
    and later: "\<forall>j. i < j \<and> j < Suc (length ops) \<longrightarrow> (ops @ [x]) ! j \<noteq> Remove r u"
    unfolding joined_not_left_def by auto
  show "u \<in> {u. (u \<in> joined_not_left ops r \<and> x \<noteq> Remove r u) \<or> x = Add r u}"
  proof (cases "i < length ops")
    case True
    then have a: "ops ! i = Add r u" using i(2) by (simp add: nth_append)
    have b: "\<forall>j. i < j \<and> j < length ops \<longrightarrow> ops ! j \<noteq> Remove r u"
    proof (intro allI impI)
      fix j assume j: "i < j \<and> j < length ops"
      then have "(ops @ [x]) ! j \<noteq> Remove r u" using later by simp
      then show "ops ! j \<noteq> Remove r u" using j by (simp add: nth_append)
    qed
    have "i < length ops \<and> length ops < Suc (length ops)" using True by simp
    with later have "(ops @ [x]) ! length ops \<noteq> Remove r u" by blast
    then have c: "x \<noteq> Remove r u" by simp
    from True a b have "u \<in> joined_not_left ops r" unfolding joined_not_left_def by blast
    with c show ?thesis by simp
  next
    case False
    with i(1) have "i = length ops" by simp
    with i(2) have "x = Add r u" by simp
    then show ?thesis by simp
  qed
next
  fix u
  assume "u \<in> {u. (u \<in> joined_not_left ops r \<and> x \<noteq> Remove r u) \<or> x = Add r u}"
  then consider (old) "u \<in> joined_not_left ops r" "x \<noteq> Remove r u" | (new) "x = Add r u" by blast
  then show "u \<in> joined_not_left (ops @ [x]) r"
  proof cases
    case old
    then obtain i where i: "i < length ops" "ops ! i = Add r u"
      and later: "\<forall>j. i < j \<and> j < length ops \<longrightarrow> ops ! j \<noteq> Remove r u"
      unfolding joined_not_left_def by auto
    have a: "i < length (ops @ [x])" using i(1) by simp
    have b: "(ops @ [x]) ! i = Add r u" using i by (simp add: nth_append)
    have c: "\<forall>j. i < j \<and> j < length (ops @ [x]) \<longrightarrow> (ops @ [x]) ! j \<noteq> Remove r u"
    proof (intro allI impI)
      fix j assume j: "i < j \<and> j < length (ops @ [x])"
      show "(ops @ [x]) ! j \<noteq> Remove r u"
      proof (cases "j < length ops")
        case True
        then show ?thesis using later j by (simp add: nth_append)
      next
        case False
        with j have "j = length ops" by simp
        then show ?thesis using old(2) by simp
      qed
    qed
    from a b c show ?thesis unfolding joined_not_left_def by blast
  next
    case new
    have a: "length ops < length (ops @ [x])" by simp
    have b: "(ops @ [x]) ! length ops = Add r u" using new by simp
    have c: "\<forall>j. length ops < j \<and> j < length (ops @ [x]) \<longrightarrow> (ops @ [x]) ! j \<noteq> Remove r u"
    proof (intro allI impI)
      fix j assume "length ops < j \<and> j < length (ops @ [x])"
      then have "length ops < j" and "j < Suc (length ops)" by simp_all
      then have False by linarith
      then show "(ops @ [x]) ! j \<noteq> Remove r u" ..
    qed
    from a b c show ?thesis unfolding joined_not_left_def by blast
  qed
qed

lemma joined_not_left_Nil: "joined_not_left [] r = {}"
  by (simp add: joined_not_left_def)

lemma joined_not_left_Add:
  "joined_not_left (ops @ [Add r' u']) r =
     (if r' = r then insert u' (joined_not_left ops r) else joined_not_left ops r)"
  unfolding joined_not_left_snoc by auto

lemma joined_not_left_Remove:
  "joined_not_left (ops @ [Remove r' u']) r =
     (if r' = r then joined_not_left ops r - {u'} else joined_not_left ops r)"
  unfolding joined_not_left_snoc by auto

lemma wf_empty: "wf_registry Map.empty" by (simp add: wf_registry_def)



lemma wf_plain_slot:
  assumes "wf_registry reg" "\<not> inherited r"
  shows "reg r = None \<or> (\<exists>us. reg r = Some (Members us) \<and> us \<noteq> [] \<and> distinct us)"
proof (cases "reg r")
  case None then show ?thesis by simp
next
  case (Some v)
  from assms(1) have "case reg r of None \<Rightarrow> True
       | Some (Members us) \<Rightarrow> us \<noteq> [] \<and> distinct us \<and> \<not> inherited r
       | Some (Builtin n) \<Rightarrow> inherited r" unfolding wf_registry_def by blast
  with Some assms(2) show ?thesis by (cases v) auto
qed

lemma wf_inherited_slot:
  assumes "wf_registry reg" "inherited r"
  shows "\<exists>n. rooms_get reg r = Some (Builtin n)"
proof (cases "reg r")
  case None
  with assms(2) show ?thesis
    by (auto simp: rooms_get_def inherited_def dest: object_prototype_Builtin)
next
  case (Some v)
  from assms(1) have "case reg r of None \<Rightarrow> True
       | Some (Members us) \<Rightarrow> us \<noteq> [] \<and> distinct us \<and> \<not> inherited r
       | Some (Builtin n) \<Rightarrow> inherited r" unfolding wf_registry_def by blast
  with Some assms(2) show ?thesis by (cases v) (auto simp: rooms_get_def)
qed

lemma add_plain:
  assumes "wf_registry reg" "\<not> inherited r"
  shows "addParticipant reg r u = (None, reg(r \<mapsto> Members (set_add (members_of reg r) u)))"
proof -
  have ne: "r \<noteq> ''__proto__''" using assms(2) by (auto simp: inherited_def object_prototype_def)
  from wf_plain_slot[OF assms] show ?thesis
  proof
    assume "reg r = None"
    with ne assms(2) show ?thesis
      by (simp add: addParticipant_def rooms_get_plain rooms_set_def members_of_def)
  next
    assume "\<exists>us. reg r = Some (Members us) \<and> us \<noteq> [] \<and> distinct us"
    then obtain us where "reg r = Some (Members us)" by blast
    with ne assms(2) show ?thesis
      by (simp add: addParticipant_def rooms_get_plain rooms_set_def members_of_def)
  qed
qed

lemma add_inherited:
  assumes "wf_registry reg" "inherited r"
  shows "\<exists>n. addParticipant reg r u =
           (Some (TypeError ''rooms[roomId].add is not a function''), rooms_set reg r (Builtin n))
         \<and> rooms_get reg r = Some (Builtin n)"
proof -
  from wf_inherited_slot[OF assms] obtain n where n: "rooms_get reg r = Some (Builtin n)" by blast
  have "rooms_get (rooms_set reg r (Builtin n)) r = Some (Builtin n)"
    using n by (auto simp: rooms_set_def rooms_get_def)
  with n show ?thesis by (simp add: addParticipant_def)
qed

lemma remove_plain:
  assumes "wf_registry reg" "\<not> inherited r"
  shows "removeParticipant reg r u =
           (None, if reg r = None then reg
                  else if set_delete (members_of reg r) u = [] then reg(r := None)
                  else reg(r \<mapsto> Members (set_delete (members_of reg r) u)))"
  using wf_plain_slot[OF assms] assms(2)
  by (auto simp: removeParticipant_def rooms_get_plain members_of_def)

lemma remove_inherited:
  assumes "wf_registry reg" "inherited r"
  shows "removeParticipant reg r u =
           (Some (TypeError ''rooms[roomId].delete is not a function''), reg)"
  using wf_inherited_slot[OF assms] by (auto simp: removeParticipant_def)

lemma wf_add: assumes "wf_registry reg" shows "wf_registry (snd (addParticipant reg r u))"
proof (cases "inherited r")
  case False
  have "set_add (members_of reg r) u \<noteq> []" by (auto simp: set_add_def)
  moreover have "distinct (set_add (members_of reg r) u)"
    using wf_plain_slot[OF assms False] by (auto simp: set_add_def members_of_def)
  ultimately show ?thesis
    using assms False unfolding add_plain[OF assms False] wf_registry_def by simp
next
  case True
  from add_inherited[OF assms True, of u] obtain n where
    "snd (addParticipant reg r u) = rooms_set reg r (Builtin n)" by force
  then show ?thesis using assms True unfolding wf_registry_def rooms_set_def by simp
qed

lemma wf_remove: assumes "wf_registry reg" shows "wf_registry (snd (removeParticipant reg r u))"
proof (cases "inherited r")
  case False
  have "distinct (set_delete (members_of reg r) u)"
    using wf_plain_slot[OF assms False] by (auto simp: set_delete_def members_of_def distinct_removeAll)
  then show ?thesis
    using assms False unfolding remove_plain[OF assms False] wf_registry_def by simp
next
  case True
  then show ?thesis using assms by (simp add: remove_inherited)
qed

lemma wf_apply_op: "wf_registry reg \<Longrightarrow> wf_registry (apply_op reg x)"
  by (cases x) (simp_all add: wf_add wf_remove)

lemma wf_foldl: "wf_registry reg \<Longrightarrow> wf_registry (foldl apply_op reg ops)"
  by (induction ops arbitrary: reg) (simp_all add: wf_apply_op)

lemma wf_run_ops: "wf_registry (run_ops ops)"
  by (simp add: run_ops_def wf_foldl wf_empty)

lemma run_ops_snoc: "run_ops (ops @ [x]) = apply_op (run_ops ops) x"
  by (simp add: run_ops_def)

lemma names_add:
  assumes "wf_registry reg" "\<not> inherited r"
  shows "names (snd (addParticipant reg r' u)) r = (if r' = r then insert u (names reg r) else names reg r)"
proof (cases "inherited r'")
  case False
  show ?thesis unfolding add_plain[OF assms(1) False]
    by (auto simp: names_def members_of_def set_add_def split: option.splits slot.splits)
next
  case True
  from add_inherited[OF assms(1) True, of u] obtain n where
    "snd (addParticipant reg r' u) = rooms_set reg r' (Builtin n)" by force
  moreover have "r' \<noteq> r" using True assms(2) by auto
  ultimately show ?thesis by (simp add: names_def members_of_def rooms_set_def)
qed

lemma removeAll_Nil_iff: "removeAll u xs = [] \<longleftrightarrow> set xs \<subseteq> {u}"
  by (induction xs) auto

lemma names_remove:
  assumes "wf_registry reg" "\<not> inherited r"
  shows "names (snd (removeParticipant reg r' u)) r = (if r' = r then names reg r - {u} else names reg r)"
proof (cases "inherited r'")
  case False
  show ?thesis unfolding remove_plain[OF assms(1) False]
    by (auto simp: names_def members_of_def set_delete_def removeAll_Nil_iff
        split: option.splits slot.splits)
next
  case True
  then show ?thesis using assms by (auto simp: remove_inherited)
qed

lemma names_run_ops:
  "\<not> inherited r \<Longrightarrow> names (run_ops ops) r = joined_not_left ops r"
proof (induction ops rule: rev_induct)
  case Nil
  then show ?case by (simp add: run_ops_def names_def members_of_def joined_not_left_Nil)
next
  case (snoc x ops)
  then show ?case
    by (cases x) (simp_all add: run_ops_snoc names_add names_remove wf_run_ops
        joined_not_left_Add joined_not_left_Remove)
qed

lemma listParticipants_names:
  assumes "wf_registry reg" "\<not> inherited r"
  shows "set (listParticipants reg r) = Str ` names reg r"
  using wf_plain_slot[OF assms] assms(2)
  by (auto simp: listParticipants_def rooms_get_plain names_def members_of_def)

section \<open>Lemmas: the message store\<close>

lemma sql_limit_take: "\<exists>k. sql_limit n xs = take k xs"
proof (cases "n < 0")
  case True
  then have "sql_limit n xs = take (length xs) xs" by (simp add: sql_limit_def)
  then show ?thesis ..
next
  case False
  then have "sql_limit n xs = take (nat n) xs" by (simp add: sql_limit_def)
  then show ?thesis ..
qed

lemma select_recent_take:
  "\<exists>k. select_recent db r l = take k (sort_key (\<lambda>m. - created_at m) (filter (\<lambda>m. room_id m = r) db))"
  unfolding select_recent_def by (rule sql_limit_take)

lemma sorted_desc_sort:
  "sorted_wrt (\<lambda>a b. created_at b \<le> created_at a) (sort_key (\<lambda>m. - created_at m) (xs :: message list))"
proof -
  have "sorted (map (\<lambda>m. - created_at m) (sort_key (\<lambda>m. - created_at m) xs))"
    by (rule sorted_sort_key)
  then show ?thesis by (simp add: sorted_map)
qed

lemma select_recent_newest_first:
  "sorted_wrt (\<lambda>a b. created_at b \<le> created_at a) (select_recent db r l)"
proof -
  obtain k where "select_recent db r l = take k (sort_key (\<lambda>m. - created_at m) (filter (\<lambda>m. room_id m = r) db))"
    using select_recent_take by blast
  then show ?thesis using sorted_desc_sort by (simp add: sorted_wrt_take)
qed

lemma recent_oldest_first:
  "sorted (map created_at (getRecentMessages db r l))"
  unfolding getRecentMessages_def sorted_map sorted_wrt_rev
  by (rule select_recent_newest_first)

lemma set_select_recent:
  "set (select_recent db r l) \<subseteq> {m \<in> set db. room_id m = r}"
proof -
  obtain k where k: "select_recent db r l = take k (sort_key (\<lambda>m. - created_at m) (filter (\<lambda>m. room_id m = r) db))"
    using select_recent_take by blast
  have "set (take k (sort_key (\<lambda>m. - created_at m) (filter (\<lambda>m. room_id m = r) db)))
          \<subseteq> set (sort_key (\<lambda>m. - created_at m) (filter (\<lambda>m. room_id m = r) db))"
    by (rule set_take_subset)
  then show ?thesis unfolding k by auto
qed

lemma length_select_recent:
  "0 \<le> l \<Longrightarrow> length (select_recent db r l) \<le> nat l"
  by (simp add: select_recent_def sql_limit_def)

lemma distinct_ids_select_recent:
  assumes "distinct (map msg_id db)"
  shows "distinct (map msg_id (select_recent db r l))"
proof -
  obtain k where k: "select_recent db r l = take k (sort_key (\<lambda>m. - created_at m) (filter (\<lambda>m. room_id m = r) db))"
    using select_recent_take by blast
  from assms have d: "distinct db" and i: "inj_on msg_id (set db)" by (simp_all add: distinct_map)
  have "distinct (select_recent db r l)" unfolding k using d by simp
  moreover have "inj_on msg_id (set (select_recent db r l))"
    using i set_select_recent[of db r l] by (auto intro: inj_on_subset)
  ultimately show ?thesis by (simp add: distinct_map)
qed

lemma in_drop_if_not_in_take:
  "x \<in> set xs \<Longrightarrow> x \<notin> set (take k xs) \<Longrightarrow> x \<in> set (drop k xs)"
  by (metis Un_iff append_take_drop_id set_append)

lemma select_recent_most_recent:
  assumes "m \<in> set db" "room_id m = r" "m \<notin> set (select_recent db r l)" "x \<in> set (select_recent db r l)"
  shows "created_at m \<le> created_at x"
proof -
  let ?s = "sort_key (\<lambda>m. - created_at m) (filter (\<lambda>m. room_id m = r) db)"
  obtain k where k: "select_recent db r l = take k ?s"
    using select_recent_take by blast
  have "m \<in> set ?s" using assms(1,2) by simp
  moreover have "m \<notin> set (take k ?s)" using assms(3) k by simp
  ultimately have m: "m \<in> set (drop k ?s)" by (rule in_drop_if_not_in_take)
  have x: "x \<in> set (take k ?s)" using assms(4) k by simp
  have "sorted_wrt (\<lambda>a b. created_at b \<le> created_at a) (take k ?s @ drop k ?s)"
    using sorted_desc_sort by simp
  then have "\<forall>a\<in>set (take k ?s). \<forall>b\<in>set (drop k ?s). created_at b \<le> created_at a"
    unfolding sorted_wrt_append by blast
  with m x show ?thesis by blast
qed

lemma filter_take_prefix: "\<exists>k. filter P (take n xs) = take k (filter P xs)"
proof (induction xs arbitrary: n)
  case Nil
  then show ?case by simp
next
  case (Cons a xs)
  show ?case
  proof (cases n)
    case 0
    have "filter P (take 0 (a # xs)) = take 0 (filter P (a # xs))" by simp
    then show ?thesis unfolding 0 ..
  next
    case (Suc n')
    from Cons obtain k where k: "filter P (take n' xs) = take k (filter P xs)" by blast
    show ?thesis
    proof (cases "P a")
      case True
      then have "filter P (take n (a # xs)) = take (Suc k) (filter P (a # xs))"
        using k Suc by simp
      then show ?thesis ..
    next
      case False
      then have "filter P (take n (a # xs)) = take k (filter P (a # xs))"
        using k Suc by simp
      then show ?thesis ..
    qed
  qed
qed

lemma recent_ties_reversed:
  "\<exists>k. filter (\<lambda>m. created_at m = t) (getRecentMessages db r l)
        = rev (take k (filter (\<lambda>m. room_id m = r \<and> created_at m = t) db))"
proof -
  let ?room = "filter (\<lambda>m. room_id m = r) db"
  let ?s = "sort_key (\<lambda>m. - created_at m) ?room"
  obtain n where n: "select_recent db r (case l of None \<Rightarrow> 50 | Some n \<Rightarrow> n) = take n ?s"
    using select_recent_take by blast
  obtain k where k: "filter (\<lambda>m. created_at m = t) (take n ?s) = take k (filter (\<lambda>m. created_at m = t) ?s)"
    using filter_take_prefix by blast
  have "filter (\<lambda>m. created_at m = t) ?s = filter (\<lambda>m. - created_at m = - t) ?s" by simp
  also have "\<dots> = filter (\<lambda>m. - created_at m = - t) ?room" by (rule sort_key_stable)
  also have "\<dots> = filter (\<lambda>m. room_id m = r \<and> created_at m = t) db" by (simp add: conj_commute)
  finally have s: "filter (\<lambda>m. created_at m = t) ?s = filter (\<lambda>m. room_id m = r \<and> created_at m = t) db" .
  have "filter (\<lambda>m. created_at m = t) (getRecentMessages db r l)
          = rev (filter (\<lambda>m. created_at m = t) (take n ?s))"
    unfolding getRecentMessages_def n by (simp add: rev_filter)
  also have "\<dots> = rev (take k (filter (\<lambda>m. room_id m = r \<and> created_at m = t) db))"
    unfolding k s ..
  finally show ?thesis ..
qed

section \<open>Lemmas: the handlers\<close>

lemma storeMessage_Inr:
  "storeMessage e db m = Inr db' \<Longrightarrow> db' = db @ [row_of e m] \<and> msg_id (row_of e m) \<notin> set (map msg_id db)"
  by (auto simp: storeMessage_def split: option.splits if_splits)

lemma send_invalid:
  assumes "\<not> truthy (send_room st sid msg) \<or> send_text msg = []"
  shows "handleIncomingMessage e st sid msg ack
           = (st, if ack then [Ack (AckError ''Invalid payload'')] else [])"
  using assms by (simp add: handleIncomingMessage_def)

lemma send_stored:
  assumes "truthy (send_room st sid msg)" "send_text msg \<noteq> []"
      and "storeMessage e (messages st) (messageData e st sid msg) = Inr db'"
  shows "handleIncomingMessage e st sid msg ack =
          (st\<lparr>messages := db'\<rparr>,
           [Inserted (row_of e (messageData e st sid msg)),
            Emit (to_room st (room_id (messageData e st sid msg))) (chat_event (messageData e st sid msg))]
           @ (if ack then [Ack (AckOk (msg_id (messageData e st sid msg)))] else []))"
  using assms by (simp add: handleIncomingMessage_def)

lemma send_store_failed:
  assumes "truthy (send_room st sid msg)" "send_text msg \<noteq> []"
      and "storeMessage e (messages st) (messageData e st sid msg) = Inl err"
  shows "handleIncomingMessage e st sid msg ack =
          (st, (if ack then [Ack (AckError (error_message err))] else [])
                  @ [Emit (to_self sid) (ErrorMessage (''Store failed: '' @ error_message err))])"
  using assms by (simp add: handleIncomingMessage_def)

lemma rooms_get_None: "rooms_get reg r = None \<Longrightarrow> reg r = None \<and> r \<noteq> ''__proto__''"
  by (auto simp: rooms_get_def object_prototype_def split: option.splits)

lemma add_not_shadowed:
  assumes "\<not> shadowed reg r"
  shows "addParticipant reg r u = (None, reg(r \<mapsto> Members (set_add (members_of reg r) u)))"
proof (cases "rooms_get reg r")
  case None
  then have own: "reg r = None" and ne: "r \<noteq> ''__proto__''" using rooms_get_None by blast+
  have "rooms_get (reg(r \<mapsto> Members [])) r = Some (Members [])" by (simp add: rooms_get_def)
  with None own ne show ?thesis
    by (simp add: addParticipant_def rooms_set_def members_of_def)
next
  case (Some v)
  with assms obtain us where v: "v = Members us" by (cases v) (auto simp: shadowed_def)
  with Some have own: "reg r = Some (Members us)" by (simp add: rooms_get_Members)
  have same: "rooms_set reg r (Members us) = reg" using own by (auto simp: rooms_set_def)
  show ?thesis using Some v own
    by (simp add: addParticipant_def same members_of_def)
qed

lemma add_shadowed:
  assumes "shadowed reg r"
  shows "fst (addParticipant reg r u) = Some (TypeError ''rooms[roomId].add is not a function'')"
proof -
  from assms obtain n where n: "rooms_get reg r = Some (Builtin n)"
    by (auto simp: shadowed_def split: option.splits slot.splits)
  have "rooms_get (rooms_set reg r (Builtin n)) r = Some (Builtin n)"
    using n by (auto simp: rooms_set_def rooms_get_def)
  with n show ?thesis by (simp add: addParticipant_def)
qed

lemma listParticipants_own:
  "reg r = Some (Members us) \<Longrightarrow> listParticipants reg r = map Str us"
  by (simp add: listParticipants_def rooms_get_def)

lemma join_ok:
  assumes "\<not> shadowed (rooms st) (join_room_id e p)"
  shows "join_room e st sid (Some p) =
     (None,
      st\<lparr>adapter := (adapter st)(join_room_id e p := insert sid (adapter st (join_room_id e p))),
         sockets := (sockets st)(sid := \<lparr>sd_username = Some (join_name (rp_username p)),
                                        sd_roomId = Some (join_room_id e p)\<rparr>),
         rooms := (rooms st)(join_room_id e p \<mapsto>
                     Members (set_add (members_of (rooms st) (join_room_id e p)) (join_name (rp_username p))))\<rparr>,
      [Emit {sid} (Joined (join_room_id e p)
         (map Str (set_add (members_of (rooms st) (join_room_id e p)) (join_name (rp_username p))))),
       Emit (adapter st (join_room_id e p) - {sid}) (UserJoined (join_name (rp_username p))
         (map Str (set_add (members_of (rooms st) (join_room_id e p)) (join_name (rp_username p)))))]
      @ map (\<lambda>m. Emit {sid} (chat_event m)) (getRecentMessages (messages st) (join_room_id e p) (Some 50)))"
  by (simp add: join_room_def Let_def socket_join_def add_not_shadowed[OF assms]
      listParticipants_own to_self_def to_others_def)

lemma message_recipients_replay:
  "message_recipients (map (\<lambda>m. Emit R (chat_event m)) ms) = (if ms = [] then {} else R)"
  by (induction ms) (auto simp: chat_event_def)

lemma join_name_cases:
  "join_name u = (if truthy u then take 48 (str_of u) else ''Anonymous'')"
  by (auto simp: join_name_def truthy_def str_of_def Let_def split: option.splits)

lemma join_name_length: "length (join_name u) \<le> 48"
  by (simp add: join_name_cases)

lemma in_set_add: "u \<in> set (set_add us u)" by (simp add: set_add_def)

lemma listParticipants_plain:
  "\<not> inherited r \<Longrightarrow> \<not> shadowed reg r \<Longrightarrow> listParticipants reg r = map Str (members_of reg r)"
  by (auto simp: listParticipants_def shadowed_def rooms_get_plain members_of_def
      split: option.splits slot.splits)

lemma remove_unshadowed:
  assumes "\<not> inherited r" "\<not> shadowed reg r"
  shows "removeParticipant reg r u =
           (None, if reg r = None then reg
                  else if set_delete (members_of reg r) u = [] then reg(r := None)
                  else reg(r \<mapsto> Members (set_delete (members_of reg r) u)))"
  using assms
  by (auto simp: removeParticipant_def shadowed_def rooms_get_plain members_of_def
      split: option.splits slot.splits)

lemma remove_unshadowed_keeps:
  assumes "\<not> inherited r" "\<not> shadowed reg r"
  shows "\<not> shadowed (snd (removeParticipant reg r u)) r"
  unfolding remove_unshadowed[OF assms] using assms
  by (auto simp: shadowed_def rooms_get_plain)

lemma remove_unshadowed_members:
  assumes "\<not> inherited r" "\<not> shadowed reg r"
  shows "members_of (snd (removeParticipant reg r u)) r = set_delete (members_of reg r) u"
  unfolding remove_unshadowed[OF assms]
  by (auto simp: members_of_def set_delete_def split: option.splits slot.splits)

lemma end_session_plain:
  assumes "truthy (leave_room st sid pl)" "truthy (leave_name st sid pl)"
      and "\<not> inherited (str_of (leave_room st sid pl))"
      and "\<not> shadowed (rooms st) (str_of (leave_room st sid pl))"
  shows "end_session st sid pl =
     (st\<lparr>adapter := (adapter st)(str_of (leave_room st sid pl)
                        := adapter st (str_of (leave_room st sid pl)) - {sid}),
         rooms := snd (removeParticipant (rooms st) (str_of (leave_room st sid pl))
                          (str_of (leave_name st sid pl)))\<rparr>,
      [Emit (adapter st (str_of (leave_room st sid pl)) - {sid})
         (Participants (map Str (set_delete (members_of (rooms st) (str_of (leave_room st sid pl)))
                                            (str_of (leave_name st sid pl))))),
       Emit (adapter st (str_of (leave_room st sid pl)) - {sid})
         (UserLeft (str_of (leave_name st sid pl))
            (map Str (set_delete (members_of (rooms st) (str_of (leave_room st sid pl)))
                                            (str_of (leave_name st sid pl)))))])"
proof -
  let ?r = "str_of (leave_room st sid pl)"
  let ?u = "str_of (leave_name st sid pl)"
  obtain reg' where rm: "removeParticipant (rooms st) ?r ?u = (None, reg')"
    using remove_unshadowed[OF assms(3,4)] by simp
  have ns: "\<not> shadowed reg' ?r" using remove_unshadowed_keeps[OF assms(3,4), of ?u] rm by simp
  have mem: "members_of reg' ?r = set_delete (members_of (rooms st) ?r) ?u"
    using remove_unshadowed_members[OF assms(3,4), of ?u] rm by simp
  show ?thesis using assms(1,2) rm
    by (simp add: end_session_def Let_def socket_leave_def to_room_def
        listParticipants_plain[OF assms(3) ns] mem)
qed

lemma leave_room_after [simp]:
  "leave_room (fst (end_session st sid pl)) sid pl = leave_room st sid pl"
  by (auto simp: end_session_def leave_room_def Let_def socket_leave_def split: prod.splits option.splits)

lemma leave_name_after [simp]:
  "leave_name (fst (end_session st sid pl)) sid pl = leave_name st sid pl"
  by (auto simp: end_session_def leave_name_def Let_def socket_leave_def split: prod.splits option.splits)

lemma set_delete_idem: "set_delete (set_delete us u) u = set_delete us u"
  by (simp add: set_delete_def)


lemma to_upper_not_lower: "\<not> (97 \<le> (of_char (to_upper c) :: nat) \<and> (of_char (to_upper c) :: nat) \<le> 122)"
  by (auto simp: to_upper_def Let_def)

lemma to_upper_all:
  "list_all (\<lambda>c. \<not> (97 \<le> (of_char c :: nat) \<and> (of_char c :: nat) \<le> 122)) (map to_upper xs)"
  unfolding list_all_iff using to_upper_not_lower by auto

lemma upper_i: "map to_upper ''i'' = ''I''"
  by code_simp

lemma upper_token: "map to_upper ''4fzyo82'' = ''4FZYO82''"
  by code_simp

lemma storeMessage_distinct:
  assumes "distinct (map msg_id db)" "storeMessage e db m = Inr db'"
  shows "distinct (map msg_id db')"
  using storeMessage_Inr[OF assms(2)] assms(1) by auto

lemma row_of_send:
  "msg_id (row_of e (messageData e st sid msg)) = ''msg-'' @ uuid e
   \<and> created_at (row_of e (messageData e st sid msg)) = server_time e
   \<and> mtype (row_of e (messageData e st sid msg))
       = (if truthy (p_type msg) then str_of (p_type msg) else ''text'')"
  by (auto simp: row_of_def messageData_def server_time_def js_or_def truthy_def str_of_def
      split: option.splits)

lemma row_of_file:
  "msg_id (row_of e (fileData e st sid fileMsg)) = ''file-'' @ uuid e
   \<and> created_at (row_of e (fileData e st sid fileMsg)) = server_time e
   \<and> mtype (row_of e (fileData e st sid fileMsg)) = ''file''"
  by (simp add: row_of_def fileData_def server_time_def)

lemma send_inserted:
  "(inserted (snd (handleIncomingMessage e st sid msg ack)) = []
      \<and> messages (fst (handleIncomingMessage e st sid msg ack)) = messages st)
   \<or> (inserted (snd (handleIncomingMessage e st sid msg ack)) = [row_of e (messageData e st sid msg)]
      \<and> storeMessage e (messages st) (messageData e st sid msg)
          = Inr (messages (fst (handleIncomingMessage e st sid msg ack))))"
  by (cases "storeMessage e (messages st) (messageData e st sid msg)")
     (auto simp: handleIncomingMessage_def)

lemma file_inserted:
  "(inserted (snd (on_file e st sid payload)) = []
      \<and> messages (fst (on_file e st sid payload)) = messages st)
   \<or> (inserted (snd (on_file e st sid payload)) = [row_of e (fileData e st sid (file_payload_of payload))]
      \<and> storeMessage e (messages st) (fileData e st sid (file_payload_of payload))
          = Inr (messages (fst (on_file e st sid payload))))"
  by (cases "storeMessage e (messages st) (fileData e st sid (file_payload_of payload))")
     (auto simp: on_file_def Let_def)

lemma end_session_twice:
  assumes "truthy (leave_room st sid pl)" and "truthy (leave_name st sid pl)"
      and "\<not> inherited (str_of (leave_room st sid pl))"
      and "\<not> shadowed (rooms st) (str_of (leave_room st sid pl))"
  shows "fst (end_session (fst (end_session st sid pl)) sid pl) = fst (end_session st sid pl)"
    and "snd (end_session (fst (end_session st sid pl)) sid pl) = snd (end_session st sid pl)"
    and "snd (end_session st sid pl) =
           [Emit (adapter st (str_of (leave_room st sid pl)) - {sid})
             (Participants (listParticipants (rooms (fst (end_session st sid pl)))
                              (str_of (leave_room st sid pl)))),
            Emit (adapter st (str_of (leave_room st sid pl)) - {sid})
             (UserLeft (str_of (leave_name st sid pl))
                (listParticipants (rooms (fst (end_session st sid pl)))
                   (str_of (leave_room st sid pl))))]"
proof -
  let ?r = "str_of (leave_room st sid pl)"
  let ?u = "str_of (leave_name st sid pl)"
  let ?st1 = "fst (end_session st sid pl)"
  have r1: "rooms ?st1 = snd (removeParticipant (rooms st) ?r ?u)"
    and a1: "adapter ?st1 = (adapter st)(?r := adapter st ?r - {sid})"
    unfolding end_session_plain[OF assms] by simp_all
  have ns1: "\<not> shadowed (rooms ?st1) ?r"
    unfolding r1 by (rule remove_unshadowed_keeps[OF assms(3,4)])
  have m1: "members_of (rooms ?st1) ?r = set_delete (members_of (rooms st) ?r) ?u"
    unfolding r1 by (rule remove_unshadowed_members[OF assms(3,4)])
  have pre: "truthy (leave_room ?st1 sid pl)" "truthy (leave_name ?st1 sid pl)"
     "\<not> inherited (str_of (leave_room ?st1 sid pl))"
     "\<not> shadowed (rooms ?st1) (str_of (leave_room ?st1 sid pl))"
    using assms ns1 by simp_all
  have second: "end_session ?st1 sid pl =
      (?st1\<lparr>adapter := (adapter ?st1)(?r := adapter ?st1 ?r - {sid}),
            rooms := snd (removeParticipant (rooms ?st1) ?r ?u)\<rparr>,
       [Emit (adapter ?st1 ?r - {sid}) (Participants (map Str (set_delete (members_of (rooms ?st1) ?r) ?u))),
        Emit (adapter ?st1 ?r - {sid}) (UserLeft ?u (map Str (set_delete (members_of (rooms ?st1) ?r) ?u)))])"
    using end_session_plain[OF pre] by simp
  have same_rooms: "snd (removeParticipant (rooms ?st1) ?r ?u) = rooms ?st1"
    unfolding r1 by (rule removeParticipant_idem)
  have same_adapter: "(adapter ?st1)(?r := adapter ?st1 ?r - {sid}) = adapter ?st1"
    unfolding a1 by auto
  have same_to: "adapter ?st1 ?r - {sid} = adapter st ?r - {sid}"
    unfolding a1 by auto
  show "fst (end_session ?st1 sid pl) = ?st1"
    unfolding second by (simp add: same_rooms same_adapter)
  show "snd (end_session ?st1 sid pl) = snd (end_session st sid pl)"
    unfolding second same_to m1 set_delete_idem
    unfolding end_session_plain[OF assms] by simp
  show "snd (end_session st sid pl) =
           [Emit (adapter st ?r - {sid}) (Participants (listParticipants (rooms ?st1) ?r)),
            Emit (adapter st ?r - {sid}) (UserLeft ?u (listParticipants (rooms ?st1) ?r))]"
    unfolding listParticipants_plain[OF assms(3) ns1] m1
    unfolding end_session_plain[OF assms] by simp
qed

section \<open>Lemmas: the scenario\<close>

lemma inherited_X [simp]: "\<not> inherited ''X''"
  by (simp add: inherited_def object_prototype_def)

lemma ann_room [simp]: "join_room_id e ann = ''X''" and bob_room [simp]: "join_room_id e bob = ''X''"
  by (simp_all add: join_room_id_def ann_def bob_def truthy_def str_of_def)

lemma ann_name [simp]: "join_name (rp_username ann) = ''ann''"
  and bob_name [simp]: "join_name (rp_username bob) = ''bob''"
  by (simp_all add: join_name_cases ann_def bob_def truthy_def str_of_def)

lemma ann_joined_eq:
  "ann_joined = \<lparr>rooms = [''X'' \<mapsto> Members [''ann'']], messages = [],
                  adapter = (\<lambda>r. {})(''X'' := {''A''}),
                  sockets = (\<lambda>s. \<lparr>sd_username = None, sd_roomId = None\<rparr>)
                     (''A'' := \<lparr>sd_username = Some ''ann'', sd_roomId = Some ''X''\<rparr>)\<rparr>"
proof -
  have "\<not> shadowed (rooms initial) (join_room_id env1 ann)"
    by (simp add: shadowed_def rooms_get_plain initial_def)
  from join_ok[OF this, of "''A''"] show ?thesis
    by (simp add: ann_joined_def initial_def members_of_def set_add_def)
qed

lemma two_joined_eq:
  "two_joined = \<lparr>rooms = [''X'' \<mapsto> Members [''ann'', ''bob'']], messages = [],
                  adapter = (\<lambda>r. {})(''X'' := {''B'', ''A''}),
                  sockets = (\<lambda>s. \<lparr>sd_username = None, sd_roomId = None\<rparr>)
                     (''A'' := \<lparr>sd_username = Some ''ann'', sd_roomId = Some ''X''\<rparr>,
                      ''B'' := \<lparr>sd_username = Some ''bob'', sd_roomId = Some ''X''\<rparr>)\<rparr>"
proof -
  have "\<not> shadowed (rooms ann_joined) (join_room_id env1 bob)"
    by (simp add: shadowed_def rooms_get_plain ann_joined_eq)
  from join_ok[OF this, of "''B''"] show ?thesis
    by (simp add: two_joined_def ann_joined_eq members_of_def set_add_def)
qed

lemma trim_hello: "trim ''  hello '' = ''hello''"
  by (simp add: trim_def js_whitespace_def)

lemma trim_blank: "trim ''   '' = []"
  by (simp add: trim_def js_whitespace_def)

lemma hello_room: "send_room two_joined ''A'' hello = Some ''X''"
  by (simp add: send_room_def hello_def two_joined_eq js_or_def truthy_def)

lemma hello_text: "send_text hello = ''hello''"
  by (simp add: send_text_def hello_def js_or_def truthy_def str_of_def trim_hello)

lemma hello_data:
  "messageData env1 two_joined ''A'' hello =
     \<lparr>msg_id = ''msg-u1'', room_id = ''X'', username = ''ann'', content = ''hello'',
      mtype = ''text'', filename = None, mime = None, created_at = 1000\<rparr>"
  by (simp add: messageData_def hello_room hello_text str_of_def env1_def)
     (simp add: hello_def two_joined_eq js_or_def truthy_def)

lemma hello_stored:
  "storeMessage env1 (messages two_joined) (messageData env1 two_joined ''A'' hello) =
     Inr [\<lparr>msg_id = ''msg-u1'', room_id = ''X'', username = ''ann'', content = ''hello'',
      mtype = ''text'', filename = None, mime = None, created_at = 1000\<rparr>]"
  unfolding hello_data
  by (simp add: storeMessage_def row_of_def env1_def two_joined_eq js_or_def truthy_def)

lemma ann_said_hello_eq:
  "ann_said_hello = ann_joined\<lparr>messages :=
      [\<lparr>msg_id = ''msg-u1'', room_id = ''X'', username = ''ann'', content = ''hello'',
        mtype = ''text'', filename = None, mime = None, created_at = 1000\<rparr>]\<rparr>"
proof -
  have room: "send_room ann_joined ''A'' hello = Some ''X''"
    by (simp add: send_room_def hello_def ann_joined_eq js_or_def truthy_def)
  have data: "messageData env1 ann_joined ''A'' hello =
     \<lparr>msg_id = ''msg-u1'', room_id = ''X'', username = ''ann'', content = ''hello'',
      mtype = ''text'', filename = None, mime = None, created_at = 1000\<rparr>"
    by (simp add: messageData_def room hello_text str_of_def env1_def)
       (simp add: hello_def ann_joined_eq js_or_def truthy_def)
  have stored: "storeMessage env1 (messages ann_joined) (messageData env1 ann_joined ''A'' hello) =
     Inr [\<lparr>msg_id = ''msg-u1'', room_id = ''X'', username = ''ann'', content = ''hello'',
      mtype = ''text'', filename = None, mime = None, created_at = 1000\<rparr>]"
    unfolding data
    by (simp add: storeMessage_def row_of_def env1_def ann_joined_eq js_or_def truthy_def)
  have h1: "truthy (send_room ann_joined ''A'' hello)" by (simp add: room truthy_def)
  have h2: "send_text hello \<noteq> []" by (simp add: hello_text)
  show ?thesis unfolding ann_said_hello_def send_stored[OF h1 h2 stored] by simp
qed


lemma ann_leave_room: "leave_room two_joined ''A'' (Some ann) = Some ''X''"
  by (simp add: leave_room_def end_payload_def ann_def js_or_def truthy_def)

lemma ann_leave_name: "leave_name two_joined ''A'' (Some ann) = Some ''ann''"
  by (simp add: leave_name_def end_payload_def ann_def js_or_def truthy_def)

lemma ann_leaves:
  "truthy (leave_room two_joined ''A'' (Some ann))"
  "truthy (leave_name two_joined ''A'' (Some ann))"
  "\<not> inherited (str_of (leave_room two_joined ''A'' (Some ann)))"
  "\<not> shadowed (rooms two_joined) (str_of (leave_room two_joined ''A'' (Some ann)))"
  unfolding ann_leave_room ann_leave_name
  by (simp_all add: truthy_def str_of_def shadowed_def rooms_get_plain two_joined_eq)

lemma ann_left_effects:
  "snd (end_session two_joined ''A'' (Some ann)) =
     [Emit {''B''} (Participants [Str ''bob'']), Emit {''B''} (UserLeft ''ann'' [Str ''bob''])]"
proof -
  have ad: "adapter two_joined ''X'' - {''A''} = {''B''}" by (auto simp: two_joined_eq)
  have mem: "members_of (rooms two_joined) ''X'' = [''ann'', ''bob'']"
    by (simp add: members_of_def two_joined_eq)
  show ?thesis unfolding end_session_plain[OF ann_leaves]
    by (simp add: ann_leave_room ann_leave_name str_of_def ad mem set_delete_def)
qed

section \<open>The registry\<close>

lemma registry_tracks_plain_rooms:
  assumes "\<not> inherited r"
  shows "set (listParticipants (run_ops ops) r) = Str ` joined_not_left ops r"
    and "run_ops ops r = None \<longleftrightarrow> joined_not_left ops r = {}"
    and "run_ops ops r \<noteq> Some (Members [])"
proof -
  have wf: "wf_registry (run_ops ops)" by (rule wf_run_ops)
  show "set (listParticipants (run_ops ops) r) = Str ` joined_not_left ops r"
    using listParticipants_names[OF wf assms] names_run_ops[OF assms] by simp
  show "run_ops ops r = None \<longleftrightarrow> joined_not_left ops r = {}"
    using wf_plain_slot[OF wf assms] names_run_ops[OF assms, of ops]
    by (auto simp: names_def members_of_def)
  show "run_ops ops r \<noteq> Some (Members [])"
    using wf_plain_slot[OF wf assms] by auto
qed

text \<open>
  Claim C2. For every finite sequence of add (join) and remove (leave, disconnect)
  operations, the registry's participant set for a room is exactly the set of user names
  that have joined the room and not subsequently left, and a room whose set becomes empty
  is deleted, so that no room is present with an empty set.

  \<open>registry_tracks_plain_rooms\<close> above is the claim for the room ids that
  \<open>Object.prototype\<close> does not name. It fails for the others, which a client may send as
  well: on a fresh registry, adding \<open>bob\<close> to the room \<open>constructor\<close> raises a
  \<open>TypeError\<close>, leaves an entry for the room that is the inherited function and no set,
  and the participant list of the room holds \<open>undefined\<close> and not \<open>bob\<close>.
\<close>

theorem registry_add_inherited_room:
  "fst (addParticipant Map.empty ''constructor'' ''bob'')
     = Some (TypeError ''rooms[roomId].add is not a function'')
   \<and> run_ops [Add ''constructor'' ''bob''] ''constructor'' = Some (Builtin 1)
   \<and> listParticipants (run_ops [Add ''constructor'' ''bob'']) ''constructor'' = [Undefined]"
  by (simp add: run_ops_def addParticipant_def listParticipants_def rooms_get_def rooms_set_def
      object_prototype_def)

text \<open>
  \<open>listParticipants\<close> is called in three places, by the handlers of \<open>join-room\<close>,
  \<open>end-session\<close> and \<open>disconnecting\<close>, each time right after \<open>addParticipant\<close> or
  \<open>removeParticipant\<close> on the same room id. On a registry built by these operations both
  raise on a room id that \<open>Object.prototype\<close> names, so that \<open>listParticipants\<close> receives
  only the other room ids. A direct call on \<open>constructor\<close>, which no run of the server
  makes, would return a sequence of one \<open>undefined\<close>.
\<close>

lemma add_returns_plain:
  assumes "wf_registry reg" and "fst (addParticipant reg r u) = None"
  shows "\<not> inherited r"
proof
  assume "inherited r"
  from add_inherited[OF assms(1) this, of u] assms(2) show False by auto
qed

lemma remove_returns_plain:
  assumes "wf_registry reg" and "fst (removeParticipant reg r u) = None"
  shows "\<not> inherited r"
proof
  assume "inherited r"
  from remove_inherited[OF assms(1) this, of u] assms(2) show False by simp
qed

lemma listParticipants_direct_call:
  "rooms initial ''constructor'' = None
   \<and> listParticipants (rooms initial) ''constructor'' = [Undefined]"
  by (simp add: initial_def listParticipants_def rooms_get_def object_prototype_def)

lemma last_one_left:
  "run_ops [Add ''X'' ''ann'', Remove ''X'' ''ann''] ''X'' = None"
  by (simp add: run_ops_def addParticipant_def removeParticipant_def rooms_get_def rooms_set_def
      object_prototype_def set_add_def set_delete_def)

text \<open>
  Claim C10. \<open>listParticipants\<close> is total (it returns a sequence on every input) and, for
  every room id that it can receive (one that \<open>Object.prototype\<close> does not name) and that
  is not present in the registry, a room that was deleted when its last participant left
  included, it returns the empty sequence. For a room that is present it returns the
  names of the room's set, and on a registry built by the operations it returns the
  empty sequence for the absent rooms only.
\<close>

theorem listParticipants_absent_room_empty:
  assumes "\<not> inherited r"
  shows "(reg r = None \<longrightarrow> listParticipants reg r = [])
       \<and> listParticipants reg r =
           (case reg r of
              None \<Rightarrow> []
            | Some (Members us) \<Rightarrow> map Str us
            | Some (Builtin n) \<Rightarrow> replicate n Undefined)
       \<and> (wf_registry reg \<longrightarrow> (listParticipants reg r = [] \<longleftrightarrow> reg r = None))"
proof -
  have 1: "listParticipants reg r =
           (case reg r of
              None \<Rightarrow> []
            | Some (Members us) \<Rightarrow> map Str us
            | Some (Builtin n) \<Rightarrow> replicate n Undefined)"
    using assms by (simp add: listParticipants_def rooms_get_plain)
  have 2: "reg r = None \<longrightarrow> listParticipants reg r = []"
    by (simp add: 1)
  have 3: "wf_registry reg \<longrightarrow> (listParticipants reg r = [] \<longleftrightarrow> reg r = None)"
  proof
    assume wf: "wf_registry reg"
    from wf_plain_slot[OF wf assms] show "listParticipants reg r = [] \<longleftrightarrow> reg r = None"
      using 2 by (auto simp: listParticipants_own)
  qed
  from 1 2 3 show ?thesis by blast
qed

theorem listParticipants_absent_room_empty_witness:
  "\<not> inherited ''X''
   \<and> run_ops [Add ''X'' ''ann'', Remove ''X'' ''ann''] ''X'' = None
   \<and> wf_registry (run_ops [Add ''X'' ''ann'', Remove ''X'' ''ann''])
   \<and> listParticipants (run_ops [Add ''X'' ''ann'', Remove ''X'' ''ann'']) ''X'' = []"
  using listParticipants_absent_room_empty[of "''X''" "run_ops [Add ''X'' ''ann'', Remove ''X'' ''ann'']"]
    last_one_left wf_run_ops[of "[Add ''X'' ''ann'', Remove ''X'' ''ann'']"]
  by simp

section \<open>The message store\<close>

text \<open>
  Claim C3. For every room and every content of the store (the ids of its rows are
  distinct, \<open>id\<close> being the primary key), \<open>getRecentMessages\<close> with a limit that is not
  negative returns \<open>limit\<close> rows, or all the rows of the room when there are fewer (50
  when no limit is passed), each row once, all of the given room, in non-decreasing order
  of \<open>created_at\<close>; the result is the reverse of the newest-first retrieval, and no row of
  the room that is left out was created after a row that is returned.
\<close>

theorem recent_is_bounded_room_tail:
  assumes "0 \<le> limit" and "distinct (map msg_id db)"
  shows "length (getRecentMessages db roomId (Some limit)) \<le> nat limit
       \<and> length (getRecentMessages db roomId (Some limit))
           = min (nat limit) (length (filter (\<lambda>m. room_id m = roomId) db))
       \<and> getRecentMessages db roomId None = getRecentMessages db roomId (Some 50)
       \<and> distinct (map msg_id (getRecentMessages db roomId (Some limit)))
       \<and> set (getRecentMessages db roomId (Some limit)) \<subseteq> {m. m \<in> set db \<and> room_id m = roomId}
       \<and> sorted (map created_at (getRecentMessages db roomId (Some limit)))
       \<and> getRecentMessages db roomId (Some limit) = rev (select_recent db roomId limit)
       \<and> sorted_wrt (\<lambda>a b. created_at b \<le> created_at a) (select_recent db roomId limit)
       \<and> (\<forall>m x. m \<in> set db \<and> room_id m = roomId
                  \<and> m \<notin> set (getRecentMessages db roomId (Some limit))
                  \<and> x \<in> set (getRecentMessages db roomId (Some limit))
              \<longrightarrow> created_at m \<le> created_at x)"
proof -
  have 1: "length (getRecentMessages db roomId (Some limit)) \<le> nat limit"
    using assms(1) by (simp add: getRecentMessages_def length_select_recent)
  have 2: "getRecentMessages db roomId None = getRecentMessages db roomId (Some 50)"
    by (simp add: getRecentMessages_def)
  have 9: "length (getRecentMessages db roomId (Some limit))
           = min (nat limit) (length (filter (\<lambda>m. room_id m = roomId) db))"
    using assms(1) by (simp add: getRecentMessages_def select_recent_def sql_limit_def min.commute)
  have 3: "distinct (map msg_id (getRecentMessages db roomId (Some limit)))"
    using distinct_ids_select_recent[OF assms(2), of roomId limit]
    by (simp add: getRecentMessages_def distinct_map)
  have 4: "set (getRecentMessages db roomId (Some limit)) \<subseteq> {m. m \<in> set db \<and> room_id m = roomId}"
    using set_select_recent[of db roomId limit] by (simp add: getRecentMessages_def)
  have 5: "sorted (map created_at (getRecentMessages db roomId (Some limit)))"
    by (rule recent_oldest_first)
  have 6: "getRecentMessages db roomId (Some limit) = rev (select_recent db roomId limit)"
    by (simp add: getRecentMessages_def)
  have 7: "sorted_wrt (\<lambda>a b. created_at b \<le> created_at a) (select_recent db roomId limit)"
    by (rule select_recent_newest_first)
  have 8: "\<forall>m x. m \<in> set db \<and> room_id m = roomId
                  \<and> m \<notin> set (getRecentMessages db roomId (Some limit))
                  \<and> x \<in> set (getRecentMessages db roomId (Some limit))
              \<longrightarrow> created_at m \<le> created_at x"
    using select_recent_most_recent[of _ db roomId limit] by (auto simp: getRecentMessages_def)
  from 1 2 3 4 5 6 7 8 9 show ?thesis by blast
qed

lemma recent_example:
  "getRecentMessages [m1, m2, m3, m4] ''X'' (Some 2) = [m4, m3]"
  by (simp add: getRecentMessages_def select_recent_def sql_limit_def m1_def m2_def m3_def m4_def)

theorem recent_is_bounded_room_tail_witness:
  "(0::int) \<le> 2 \<and> distinct (map msg_id [m1, m2, m3, m4])
   \<and> length (getRecentMessages [m1, m2, m3, m4] ''X'' (Some 2)) \<le> nat 2
   \<and> length (getRecentMessages [m1, m2, m3, m4] ''X'' (Some 2))
       = min (nat 2) (length (filter (\<lambda>m. room_id m = ''X'') [m1, m2, m3, m4]))
   \<and> distinct (map msg_id (getRecentMessages [m1, m2, m3, m4] ''X'' (Some 2)))
   \<and> sorted (map created_at (getRecentMessages [m1, m2, m3, m4] ''X'' (Some 2)))
   \<and> getRecentMessages [m1, m2, m3, m4] ''X'' (Some 2) = [m4, m3]"
proof -
  have h1: "(0::int) \<le> 2" by simp
  have h2: "distinct (map msg_id [m1, m2, m3, m4])"
    by (simp add: m1_def m2_def m3_def m4_def)
  from recent_is_bounded_room_tail[OF h1 h2, of "''X''"] h1 h2 recent_example
  show ?thesis by blast
qed

text \<open>
  Claim C6, as the specification states it: two rows of a room with one \<open>created_at\<close>
  are returned in the order of their insertion, by a secondary tiebreaker. Neither the
  table nor the query has one: the query orders by \<open>created_at\<close> alone, and the result is
  the retrieval reversed. Of two messages stored in the same millisecond, the one
  inserted second is returned first.
\<close>

theorem recent_ties_not_in_insertion_order:
  "map content (getRecentMessages
     [\<lparr>msg_id = ''msg-a'', room_id = ''X'', username = ''ann'', content = ''first'',
       mtype = ''text'', filename = None, mime = None, created_at = 1000\<rparr>,
      \<lparr>msg_id = ''msg-b'', room_id = ''X'', username = ''ann'', content = ''second'',
       mtype = ''text'', filename = None, mime = None, created_at = 1000\<rparr>]
     ''X'' (Some 50)) = [''second'', ''first'']"
  by (simp add: getRecentMessages_def select_recent_def sql_limit_def)

text \<open>
  Claim C6, amended. The result is ordered by \<open>created_at\<close>, and the rows of the room
  that share a \<open>created_at\<close> are returned in the reverse of the order of their insertion
  (those that the limit keeps are the first inserted). The result is a function of the
  table, so two calls on one table return the same order.
\<close>

theorem recent_ties_reverse_insertion:
  "sorted (map created_at (getRecentMessages db roomId limit))
   \<and> (\<exists>k. filter (\<lambda>m. created_at m = t) (getRecentMessages db roomId limit)
            = rev (take k (filter (\<lambda>m. room_id m = roomId \<and> created_at m = t) db)))"
  using recent_oldest_first recent_ties_reversed by blast

theorem recent_ties_reverse_insertion_witness:
  "filter (\<lambda>m. created_at m = 1002) (getRecentMessages [m1, m2, m3, m4] ''X'' (Some 2)) = [m4, m3]
   \<and> filter (\<lambda>m. room_id m = ''X'' \<and> created_at m = 1002) [m1, m2, m3, m4] = [m3, m4]
   \<and> sorted (map created_at (getRecentMessages [m1, m2, m3, m4] ''X'' (Some 2)))"
  using recent_ties_reverse_insertion[of "[m1, m2, m3, m4]" "''X''" "Some 2" 1002] recent_example
  by (simp add: m1_def m2_def m3_def m4_def)

section \<open>Sending a message\<close>

text \<open>
  In \<open>handleIncomingMessage\<close>: when the resolved room id is empty or the text is empty
  once trimmed, the handler leaves the state as it is (no row is stored), emits nothing,
  and its only action is to call its parameter \<open>ack\<close>, when that is a function, with
  \<open>{ok: false, error: 'Invalid payload'}\<close>. An event that carries a payload object is
  answered so when the client passed a callback.
\<close>

lemma send_invalid_payload_rejected:
  assumes "\<not> truthy (send_room st sid msg) \<or> send_text msg = []"
  shows "fst (handleIncomingMessage e st sid msg ack) = st
       \<and> inserted (snd (handleIncomingMessage e st sid msg ack)) = []
       \<and> notified (snd (handleIncomingMessage e st sid msg ack)) = {}
       \<and> snd (handleIncomingMessage e st sid msg ack)
            = (if ack then [Ack (AckError ''Invalid payload'')] else [])"
  unfolding send_invalid[OF assms] by simp

lemma send_invalid_payload_rejected_example:
  "send_text blank = []
   \<and> fst (handleIncomingMessage env1 two_joined ''A'' blank True) = two_joined
   \<and> inserted (snd (handleIncomingMessage env1 two_joined ''A'' blank True)) = []
   \<and> notified (snd (handleIncomingMessage env1 two_joined ''A'' blank True)) = {}
   \<and> snd (handleIncomingMessage env1 two_joined ''A'' blank True)
        = [Ack (AckError ''Invalid payload'')]"
proof -
  have h: "send_text blank = []"
    by (simp add: send_text_def blank_def js_or_def truthy_def str_of_def trim_blank)
  then have "\<not> truthy (send_room two_joined ''A'' blank) \<or> send_text blank = []" by simp
  from send_invalid_payload_rejected[OF this, of env1 True] h show ?thesis by simp
qed

lemma chat_message_invalid_answered:
  assumes "\<not> truthy (send_room st sid p) \<or> send_text p = []"
  shows "on_chat_message e st sid (Some p) callback
           = (st, if callback then [Ack (AckError ''Invalid payload'')] else [])"
  using assms by (simp add: on_chat_message_def send_invalid)

text \<open>
  Claim C4. For every inbound send-message event whose resolved room id is empty or whose
  text is empty once trimmed, the handler stores nothing and broadcasts nothing, and the
  acknowledgment callback, when the client supplied one, is invoked with
  \<open>{ok: false, error: 'Invalid payload'}\<close>.

  The code stores and broadcasts nothing on every such event, and it answers the events
  that carry a payload object (\<open>chat_message_invalid_answered\<close> above). An event with a
  callback and no payload has no text; the handler takes the case of a missing payload
  (\<open>payload || {}\<close>), but the callback is then its first parameter and \<open>ack\<close> is
  \<open>undefined\<close>: the handler returns in silence and the client's callback is never
  invoked.
\<close>

theorem chat_message_callback_only_unanswered:
  "on_chat_message env1 two_joined ''A'' None True = (two_joined, [])"
  by (simp add: on_chat_message_def handleIncomingMessage_def send_text_def js_or_def truthy_def
      str_of_def trim_def)

text \<open>
  Claim C1. For a send with a non-empty resolved room id and a non-empty trimmed text:
  when the store accepts the row, exactly that one row is appended to the table, the
  insertion is the handler's first action and the broadcast of the message to the room
  its second; when the store raises, the table is unchanged, no connection is sent the
  message, and the failure goes to the sender alone, as an \<open>error-message\<close> event and, when
  a callback was passed, as an error acknowledgment.
\<close>

theorem send_persists_before_broadcast:
  assumes "truthy (send_room st sid msg)" and "send_text msg \<noteq> []"
  shows "case storeMessage e (messages st) (messageData e st sid msg) of
           Inr db' \<Rightarrow>
             messages (fst (handleIncomingMessage e st sid msg ack))
               = messages st @ [row_of e (messageData e st sid msg)]
           \<and> inserted (snd (handleIncomingMessage e st sid msg ack))
               = [row_of e (messageData e st sid msg)]
           \<and> take 2 (snd (handleIncomingMessage e st sid msg ack))
               = [Inserted (row_of e (messageData e st sid msg)),
                  Emit (to_room st (str_of (send_room st sid msg)))
                       (chat_event (messageData e st sid msg))]
           \<and> message_recipients (snd (handleIncomingMessage e st sid msg ack))
               = to_room st (str_of (send_room st sid msg))
           \<and> acks (snd (handleIncomingMessage e st sid msg ack))
               = (if ack then [AckOk (msg_id (messageData e st sid msg))] else [])
         | Inl err \<Rightarrow>
             fst (handleIncomingMessage e st sid msg ack) = st
           \<and> inserted (snd (handleIncomingMessage e st sid msg ack)) = []
           \<and> message_recipients (snd (handleIncomingMessage e st sid msg ack)) = {}
           \<and> notified (snd (handleIncomingMessage e st sid msg ack)) = {sid}
           \<and> last (snd (handleIncomingMessage e st sid msg ack))
               = Emit {sid} (ErrorMessage (''Store failed: '' @ error_message err))
           \<and> acks (snd (handleIncomingMessage e st sid msg ack))
               = (if ack then [AckError (error_message err)] else [])"
proof (cases "storeMessage e (messages st) (messageData e st sid msg)")
  case (Inl err)
  show ?thesis unfolding Inl send_store_failed[OF assms Inl]
    by (simp add: to_self_def)
next
  case (Inr db')
  have db': "db' = messages st @ [row_of e (messageData e st sid msg)]"
    using storeMessage_Inr[OF Inr] by simp
  have room: "room_id (messageData e st sid msg) = str_of (send_room st sid msg)"
    by (simp add: messageData_def)
  show ?thesis unfolding Inr send_stored[OF assms Inr]
    by (simp add: db' room chat_event_def)
qed

theorem send_persists_before_broadcast_witness:
  "truthy (send_room two_joined ''A'' hello) \<and> send_text hello \<noteq> []
   \<and> messages (fst (handleIncomingMessage env1 two_joined ''A'' hello True))
       = [\<lparr>msg_id = ''msg-u1'', room_id = ''X'', username = ''ann'', content = ''hello'',
           mtype = ''text'', filename = None, mime = None, created_at = 1000\<rparr>]
   \<and> take 2 (snd (handleIncomingMessage env1 two_joined ''A'' hello True))
       = [Inserted \<lparr>msg_id = ''msg-u1'', room_id = ''X'', username = ''ann'', content = ''hello'',
           mtype = ''text'', filename = None, mime = None, created_at = 1000\<rparr>,
          Emit {''B'', ''A''} (ChatMessage ''msg-u1'' ''ann'' ''hello'' 1000 ''text'' None None)]
   \<and> acks (snd (handleIncomingMessage env1 two_joined ''A'' hello True)) = [AckOk ''msg-u1'']
   \<and> fst (handleIncomingMessage env_full two_joined ''A'' hello True) = two_joined
   \<and> message_recipients (snd (handleIncomingMessage env_full two_joined ''A'' hello True)) = {}
   \<and> notified (snd (handleIncomingMessage env_full two_joined ''A'' hello True)) = {''A''}
   \<and> acks (snd (handleIncomingMessage env_full two_joined ''A'' hello True))
       = [AckError ''database or disk is full'']"
proof -
  have h1: "truthy (send_room two_joined ''A'' hello)" by (simp add: hello_room truthy_def)
  have h2: "send_text hello \<noteq> []" by (simp add: hello_text)
  have row: "row_of env1 \<lparr>msg_id = ''msg-u1'', room_id = ''X'', username = ''ann'', content = ''hello'',
           mtype = ''text'', filename = None, mime = None, created_at = 1000\<rparr>
      = \<lparr>msg_id = ''msg-u1'', room_id = ''X'', username = ''ann'', content = ''hello'',
           mtype = ''text'', filename = None, mime = None, created_at = 1000\<rparr>"
    by (simp add: row_of_def js_or_def truthy_def)
  have mem: "to_room two_joined ''X'' = {''B'', ''A''}" by (simp add: to_room_def two_joined_eq)
  have msgs: "messages two_joined = []" by (simp add: two_joined_eq)
  have full: "storeMessage env_full (messages two_joined) (messageData env_full two_joined ''A'' hello)
      = Inl (SqliteError ''database or disk is full'')"
    by (simp add: storeMessage_def env_full_def)
  have ok: "messages (fst (handleIncomingMessage env1 two_joined ''A'' hello True))
       = [\<lparr>msg_id = ''msg-u1'', room_id = ''X'', username = ''ann'', content = ''hello'',
           mtype = ''text'', filename = None, mime = None, created_at = 1000\<rparr>]
   \<and> take 2 (snd (handleIncomingMessage env1 two_joined ''A'' hello True))
       = [Inserted \<lparr>msg_id = ''msg-u1'', room_id = ''X'', username = ''ann'', content = ''hello'',
           mtype = ''text'', filename = None, mime = None, created_at = 1000\<rparr>,
          Emit {''B'', ''A''} (ChatMessage ''msg-u1'' ''ann'' ''hello'' 1000 ''text'' None None)]
   \<and> acks (snd (handleIncomingMessage env1 two_joined ''A'' hello True)) = [AckOk ''msg-u1'']"
    using send_persists_before_broadcast[OF h1 h2, of env1 True]
    unfolding hello_stored
    by (simp add: hello_data row hello_room str_of_def mem msgs chat_event_def)
  have failed: "fst (handleIncomingMessage env_full two_joined ''A'' hello True) = two_joined
   \<and> message_recipients (snd (handleIncomingMessage env_full two_joined ''A'' hello True)) = {}
   \<and> notified (snd (handleIncomingMessage env_full two_joined ''A'' hello True)) = {''A''}
   \<and> acks (snd (handleIncomingMessage env_full two_joined ''A'' hello True))
       = [AckError ''database or disk is full'']"
    using send_persists_before_broadcast[OF h1 h2, of env_full True]
    unfolding full by simp
  from h1 h2 ok failed show ?thesis by blast
qed

text \<open>
  Claim C9, as the specification states it: the id of a persisted message is prefixed
  by its kind, \<open>msg-\<close> for a text and \<open>file-\<close> for a file. The prefix is the handler's, not
  the kind's: \<open>handleIncomingMessage\<close> takes the kind from the payload (\<open>msg.type || 'text'\<close>)
  and always prefixes \<open>msg-\<close>, so a message sent through it with the kind \<open>file\<close> is
  stored as a file with a \<open>msg-\<close> id.
\<close>

theorem send_file_kind_keeps_msg_prefix:
  "map (\<lambda>m. (msg_id m, mtype m))
     (inserted (snd (handleIncomingMessage env1 two_joined ''A''
        \<lparr>p_roomId = Some ''X'', p_text = Some ''/uploads/a.png'', p_username = Some ''ann'',
         p_type = Some ''file'', p_filename = Some ''a.png'', p_mime = None\<rparr> False)))
   = [(''msg-u1'', ''file'')]"
proof -
  let ?msg = "\<lparr>p_roomId = Some ''X'', p_text = Some ''/uploads/a.png'', p_username = Some ''ann'',
         p_type = Some ''file'', p_filename = Some ''a.png'', p_mime = None\<rparr>"
  have room: "send_room two_joined ''A'' ?msg = Some ''X''"
    by (simp add: send_room_def js_or_def truthy_def)
  have body: "send_text ?msg = ''/uploads/a.png''"
    by (simp add: send_text_def js_or_def truthy_def str_of_def trim_def js_whitespace_def)
  have h1: "truthy (send_room two_joined ''A'' ?msg)" by (simp add: room truthy_def)
  have h2: "send_text ?msg \<noteq> []" by (simp add: body)
  have row: "msg_id (row_of env1 (messageData env1 two_joined ''A'' ?msg)) = ''msg-u1''"
    "mtype (row_of env1 (messageData env1 two_joined ''A'' ?msg)) = ''file''"
    by (simp_all add: row_of_def messageData_def env1_def js_or_def truthy_def str_of_def)
  have "storeMessage env1 (messages two_joined) (messageData env1 two_joined ''A'' ?msg)
          = Inr (messages two_joined @ [row_of env1 (messageData env1 two_joined ''A'' ?msg)])"
    by (simp add: storeMessage_def row two_joined_eq) (simp add: env1_def)
  from send_stored[OF h1 h2 this] show ?thesis by (simp add: row)
qed

text \<open>
  Claim C9, amended. Every row that a handler stores has an id made by the server, the
  handler's prefix followed by \<open>uuidv4()\<close>: \<open>msg-\<close> in \<open>handleIncomingMessage\<close>, whatever
  kind the payload names (text when it names none), and \<open>file-\<close> in the \<open>file\<close> handler,
  whose kind is always file. Its \<open>created_at\<close> is the server's clock. Neither depends on
  the payload. The handler appends the rows it inserts and nothing else, and the ids of
  the table stay distinct.
\<close>

theorem persisted_id_and_time_server_side:
  assumes "distinct (map msg_id (messages st))"
  shows "(\<forall>row \<in> set (inserted (snd (handleIncomingMessage e st sid msg ack))).
            msg_id row = ''msg-'' @ uuid e \<and> created_at row = server_time e
            \<and> mtype row = (if truthy (p_type msg) then str_of (p_type msg) else ''text''))
       \<and> (\<forall>row \<in> set (inserted (snd (on_file e st sid payload))).
            msg_id row = ''file-'' @ uuid e \<and> created_at row = server_time e
            \<and> mtype row = ''file'')
       \<and> messages (fst (handleIncomingMessage e st sid msg ack))
           = messages st @ inserted (snd (handleIncomingMessage e st sid msg ack))
       \<and> messages (fst (on_file e st sid payload))
           = messages st @ inserted (snd (on_file e st sid payload))
       \<and> distinct (map msg_id (messages (fst (handleIncomingMessage e st sid msg ack))))
       \<and> distinct (map msg_id (messages (fst (on_file e st sid payload))))"
proof -
  have 1: "\<forall>row \<in> set (inserted (snd (handleIncomingMessage e st sid msg ack))).
            msg_id row = ''msg-'' @ uuid e \<and> created_at row = server_time e
            \<and> mtype row = (if truthy (p_type msg) then str_of (p_type msg) else ''text'')"
    using send_inserted[of e st sid msg ack] row_of_send[of e st sid msg] by auto
  have 2: "\<forall>row \<in> set (inserted (snd (on_file e st sid payload))).
            msg_id row = ''file-'' @ uuid e \<and> created_at row = server_time e
            \<and> mtype row = ''file''"
    using file_inserted[of e st sid payload] row_of_file[of e st sid "file_payload_of payload"] by auto
  have 3: "messages (fst (handleIncomingMessage e st sid msg ack))
           = messages st @ inserted (snd (handleIncomingMessage e st sid msg ack))"
    using send_inserted[of e st sid msg ack] by (auto dest: storeMessage_Inr)
  have 4: "messages (fst (on_file e st sid payload))
           = messages st @ inserted (snd (on_file e st sid payload))"
    using file_inserted[of e st sid payload] by (auto dest: storeMessage_Inr)
  have 5: "distinct (map msg_id (messages (fst (handleIncomingMessage e st sid msg ack))))"
    using send_inserted[of e st sid msg ack] assms by (auto dest: storeMessage_distinct)
  have 6: "distinct (map msg_id (messages (fst (on_file e st sid payload))))"
    using file_inserted[of e st sid payload] assms by (auto dest: storeMessage_distinct)
  from 1 2 3 4 5 6 show ?thesis by blast
qed

theorem persisted_id_and_time_server_side_witness:
  "distinct (map msg_id (messages two_joined))
   \<and> messages (fst (handleIncomingMessage env1 two_joined ''A'' hello True))
       = messages two_joined @ inserted (snd (handleIncomingMessage env1 two_joined ''A'' hello True))
   \<and> distinct (map msg_id (messages (fst (handleIncomingMessage env1 two_joined ''A'' hello True))))
   \<and> map msg_id (inserted (snd (handleIncomingMessage env1 two_joined ''A'' hello True)))
       = [''msg-u1'']"
proof -
  have h: "distinct (map msg_id (messages two_joined))" by (simp add: two_joined_eq)
  have h1: "truthy (send_room two_joined ''A'' hello)" by (simp add: hello_room truthy_def)
  have h2: "send_text hello \<noteq> []" by (simp add: hello_text)
  have ins: "map msg_id (inserted (snd (handleIncomingMessage env1 two_joined ''A'' hello True)))
       = [''msg-u1'']"
    unfolding send_stored[OF h1 h2 hello_stored] hello_data
    by (simp add: row_of_def)
  from persisted_id_and_time_server_side[OF h, of env1 "''A''" hello True] h ins
  show ?thesis by blast
qed

section \<open>Joining a room\<close>

text \<open>
  Two inputs on which the handler does not join: an event without a payload, whose
  exception leaves the handler (the handlers of \<open>typing\<close>, \<open>stop-typing\<close>, \<open>end-session\<close>
  and \<open>file\<close> default their parameter to \<open>{}\<close>; this one does not), and a room id that
  names an inherited property, where \<open>addParticipant\<close> raises and the handler emits
  \<open>error-message\<close>.
\<close>

lemma join_room_no_payload:
  "join_room e st sid None
     = (Some (TypeError ''Cannot destructure property roomId of undefined''), st, [])"
  by (simp add: join_room_def)

lemma join_room_inherited_room:
  "snd (snd (join_room env1 initial ''A''
              (Some \<lparr>rp_roomId = Some ''constructor'', rp_username = Some ''bob''\<rparr>)))
     = [Emit {''A''} (ErrorMessage ''join-room failed: rooms[roomId].add is not a function'')]"
  by (simp add: join_room_def join_room_id_def truthy_def str_of_def Let_def socket_join_def
      initial_def addParticipant_def rooms_get_def rooms_set_def object_prototype_def to_self_def)

lemma join_room_shadowed:
  assumes "shadowed (rooms st) (join_room_id e p)"
  shows "snd (snd (join_room e st sid (Some p)))
           = [Emit {sid} (ErrorMessage ''join-room failed: rooms[roomId].add is not a function'')]"
proof -
  obtain err reg' where run:
    "addParticipant (rooms st) (join_room_id e p) (join_name (rp_username p)) = (err, reg')"
    by (cases "addParticipant (rooms st) (join_room_id e p) (join_name (rp_username p))")
  with add_shadowed[OF assms, of "join_name (rp_username p)"]
  have "err = Some (TypeError ''rooms[roomId].add is not a function'')" by simp
  with run show ?thesis
    by (simp add: join_room_def Let_def socket_join_def to_self_def)
qed

text \<open>
  A join that the handler carries out (the event has a payload and the room id does not
  resolve to an inherited object, so that \<open>addParticipant\<close> returns): the participant is
  in the registry when the list is read; the first event is \<open>joined\<close>, to the requesting
  connection alone, with the resolved room id and the full list; the second is
  \<open>user-joined\<close>, with the name and the same list, to the connections of the room other
  than the requester; the events that follow are the 50 most recent messages of the
  joined room, oldest first, each to the requesting connection alone. The replay stores
  nothing.
\<close>

lemma join_effects_in_order:
  assumes "\<not> shadowed (rooms st) (join_room_id e p)"
  shows "fst (join_room e st sid (Some p)) = None
       \<and> Str (join_name (rp_username p))
           \<in> set (listParticipants (rooms (fst (snd (join_room e st sid (Some p))))) (join_room_id e p))
       \<and> take 2 (snd (snd (join_room e st sid (Some p)))) =
           [Emit {sid} (Joined (join_room_id e p)
              (listParticipants (rooms (fst (snd (join_room e st sid (Some p))))) (join_room_id e p))),
            Emit (adapter (fst (snd (join_room e st sid (Some p)))) (join_room_id e p) - {sid})
              (UserJoined (join_name (rp_username p))
                 (listParticipants (rooms (fst (snd (join_room e st sid (Some p))))) (join_room_id e p)))]
       \<and> adapter (fst (snd (join_room e st sid (Some p)))) (join_room_id e p)
           = insert sid (adapter st (join_room_id e p))
       \<and> drop 2 (snd (snd (join_room e st sid (Some p)))) =
           map (\<lambda>m. Emit {sid} (chat_event m))
               (rev (take 50 (sort_key (\<lambda>m. - created_at m)
                    (filter (\<lambda>m. room_id m = join_room_id e p) (messages st)))))
       \<and> message_recipients (snd (snd (join_room e st sid (Some p)))) \<subseteq> {sid}
       \<and> messages (fst (snd (join_room e st sid (Some p)))) = messages st"
  unfolding join_ok[OF assms]
  by (simp add: listParticipants_own in_set_add message_recipients_replay
      getRecentMessages_def select_recent_def sql_limit_def)

lemma join_effects_in_order_example:
  "\<not> shadowed (rooms ann_said_hello) (join_room_id env1 bob)
   \<and> fst (join_room env1 ann_said_hello ''B'' (Some bob)) = None
   \<and> snd (snd (join_room env1 ann_said_hello ''B'' (Some bob))) =
       [Emit {''B''} (Joined ''X'' [Str ''ann'', Str ''bob'']),
        Emit {''A''} (UserJoined ''bob'' [Str ''ann'', Str ''bob'']),
        Emit {''B''} (ChatMessage ''msg-u1'' ''ann'' ''hello'' 1000 ''text'' None None)]"
proof -
  have h: "\<not> shadowed (rooms ann_said_hello) (join_room_id env1 bob)"
    by (simp add: shadowed_def rooms_get_plain ann_said_hello_eq ann_joined_eq)
  have mem: "members_of (rooms ann_said_hello) ''X'' = [''ann'']"
    by (simp add: members_of_def ann_said_hello_eq ann_joined_eq)
  have ad: "adapter ann_said_hello ''X'' = {''A''}"
    by (simp add: ann_said_hello_eq ann_joined_eq)
  have hist: "getRecentMessages (messages ann_said_hello) ''X'' (Some 50) =
      [\<lparr>msg_id = ''msg-u1'', room_id = ''X'', username = ''ann'', content = ''hello'',
        mtype = ''text'', filename = None, mime = None, created_at = 1000\<rparr>]"
    by (simp add: ann_said_hello_eq getRecentMessages_def select_recent_def sql_limit_def)
  have run: "snd (snd (join_room env1 ann_said_hello ''B'' (Some bob))) =
       [Emit {''B''} (Joined ''X'' [Str ''ann'', Str ''bob'']),
        Emit {''A''} (UserJoined ''bob'' [Str ''ann'', Str ''bob'']),
        Emit {''B''} (ChatMessage ''msg-u1'' ''ann'' ''hello'' 1000 ''text'' None None)]"
    unfolding join_ok[OF h]
    by (simp add: mem ad hist set_add_def chat_event_def)
  from join_effects_in_order[OF h, of "''B''"] h run show ?thesis by simp
qed

text \<open>
  Claim C5. For every join, the side effects are, in this order: the participant is added
  to the registry; \<open>joined\<close>, with the resolved room id and the full participant list, goes
  to the requesting connection only; \<open>user-joined\<close>, with the name and the list, goes to
  every other connection of the room; the room's recent history is replayed to the
  requesting connection only.

  \<open>join_effects_in_order\<close> above is the claim for the joins that the handler carries out.
  On a join to the room \<open>constructor\<close>, which a client may ask for as for any other,
  \<open>addParticipant\<close> raises: the connection has entered the room of Socket.IO and its
  session names the room, but no participant is added, and the only event is
  \<open>error-message\<close> to the requester: no \<open>joined\<close>, no \<open>user-joined\<close>, no history.
\<close>

theorem join_inherited_room_only_error:
  "fst (join_room env1 initial ''A''
          (Some \<lparr>rp_roomId = Some ''constructor'', rp_username = Some ''bob''\<rparr>)) = None
   \<and> snd (snd (join_room env1 initial ''A''
          (Some \<lparr>rp_roomId = Some ''constructor'', rp_username = Some ''bob''\<rparr>)))
       = [Emit {''A''} (ErrorMessage ''join-room failed: rooms[roomId].add is not a function'')]
   \<and> rooms (fst (snd (join_room env1 initial ''A''
          (Some \<lparr>rp_roomId = Some ''constructor'', rp_username = Some ''bob''\<rparr>)))) ''constructor''
       = Some (Builtin 1)
   \<and> adapter (fst (snd (join_room env1 initial ''A''
          (Some \<lparr>rp_roomId = Some ''constructor'', rp_username = Some ''bob''\<rparr>)))) ''constructor''
       = {''A''}
   \<and> sockets (fst (snd (join_room env1 initial ''A''
          (Some \<lparr>rp_roomId = Some ''constructor'', rp_username = Some ''bob''\<rparr>)))) ''A''
       = \<lparr>sd_username = Some ''bob'', sd_roomId = Some ''constructor''\<rparr>"
  by (simp add: join_room_def join_room_id_def join_name_cases truthy_def str_of_def Let_def
      socket_join_def initial_def addParticipant_def rooms_get_def rooms_set_def
      object_prototype_def to_self_def)

text \<open>
  Claim C8, as the specification states it: the minted room id is \<open>room-\<close> and a token of
  7 characters. The token is the characters 2 to 8 of \<open>Math.random().toString(36)\<close>, which
  has fewer when the rendering is short: 0.5 is \<open>0.i\<close> in base 36, and the room is
  \<open>room-I\<close>.
\<close>

theorem minted_room_token_short:
  "snd (snd (join_room \<lparr>uuid = ''u2'', now = 2000, now_store = 2000, store_fault = None, rnd = ''0.i''\<rparr>
               initial ''A'' (Some \<lparr>rp_roomId = None, rp_username = Some ''ann''\<rparr>)))
     = [Emit {''A''} (Joined ''room-I'' [Str ''ann'']),
        Emit {} (UserJoined ''ann'' [Str ''ann''])]"
proof -
  let ?e = "\<lparr>uuid = ''u2'', now = 2000, now_store = 2000, store_fault = None, rnd = ''0.i''\<rparr>"
  let ?p = "\<lparr>rp_roomId = None, rp_username = Some ''ann''\<rparr>"
  have room: "join_room_id ?e ?p = ''room-I''"
    using upper_i by (simp add: join_room_id_def truthy_def mint_room_id_def)
  have name: "join_name (rp_username ?p) = ''ann''"
    by (simp add: join_name_cases truthy_def str_of_def)
  have h: "\<not> shadowed (rooms initial) (join_room_id ?e ?p)"
    unfolding room by (simp add: shadowed_def rooms_get_def object_prototype_def initial_def)
  show ?thesis unfolding join_ok[OF h] room name
    by (simp add: initial_def members_of_def set_add_def getRecentMessages_def select_recent_def sql_limit_def)
qed

text \<open>
  Claim C8, amended. For every join event that has a payload and whose room id does not
  resolve to an inherited object: no exception leaves the handler; an absent or empty
  user name becomes \<open>Anonymous\<close> and any other is cut to its first 48 characters (a name
  of white space is kept); a room id that is absent or empty is replaced by \<open>room-\<close> and
  the upper-cased characters 2 to 8 of \<open>Math.random().toString(36)\<close>, at most 7 of them;
  the connection's session holds these values, the connection is in the room, the name
  is in the room's set, and \<open>joined\<close> is the first event.
\<close>

theorem join_normalizes:
  assumes "\<not> shadowed (rooms st) (join_room_id e p)"
  shows "fst (join_room e st sid (Some p)) = None
       \<and> sockets (fst (snd (join_room e st sid (Some p)))) sid
           = \<lparr>sd_username = Some (join_name (rp_username p)), sd_roomId = Some (join_room_id e p)\<rparr>
       \<and> join_name (rp_username p)
           = (if truthy (rp_username p) then take 48 (str_of (rp_username p)) else ''Anonymous'')
       \<and> length (join_name (rp_username p)) \<le> 48
       \<and> join_room_id e p
           = (if truthy (rp_roomId p) then str_of (rp_roomId p)
              else ''room-'' @ map to_upper (take 7 (drop 2 (rnd e))))
       \<and> length (map to_upper (take 7 (drop 2 (rnd e)))) \<le> 7
       \<and> list_all (\<lambda>c. \<not> (97 \<le> (of_char c :: nat) \<and> (of_char c :: nat) \<le> 122))
             (map to_upper (take 7 (drop 2 (rnd e))))
       \<and> sid \<in> adapter (fst (snd (join_room e st sid (Some p)))) (join_room_id e p)
       \<and> join_name (rp_username p)
           \<in> set (members_of (rooms (fst (snd (join_room e st sid (Some p))))) (join_room_id e p))
       \<and> hd (snd (snd (join_room e st sid (Some p))))
           = Emit {sid} (Joined (join_room_id e p)
               (listParticipants (rooms (fst (snd (join_room e st sid (Some p))))) (join_room_id e p)))"
  unfolding join_ok[OF assms]
  using to_upper_all[of "take 7 (drop 2 (rnd e))"]
  by (simp add: listParticipants_own in_set_add members_of_def join_name_length
      join_name_cases[symmetric] join_room_id_def mint_room_id_def)

theorem join_normalizes_witness:
  "\<not> shadowed (rooms initial) (join_room_id env1 nameless)
   \<and> fst (join_room env1 initial ''A'' (Some nameless)) = None
   \<and> sockets (fst (snd (join_room env1 initial ''A'' (Some nameless)))) ''A''
       = \<lparr>sd_username = Some ''Anonymous'', sd_roomId = Some ''room-4FZYO82''\<rparr>"
proof -
  have room: "join_room_id env1 nameless = ''room-4FZYO82''"
    using upper_token by (simp add: join_room_id_def nameless_def truthy_def mint_room_id_def env1_def)
  have name: "join_name (rp_username nameless) = ''Anonymous''"
    by (simp add: join_name_cases nameless_def truthy_def)
  have h: "\<not> shadowed (rooms initial) (join_room_id env1 nameless)"
    unfolding room by (simp add: shadowed_def rooms_get_def object_prototype_def initial_def)
  from join_normalizes[OF h, of "''A''"] h show ?thesis
    by (simp add: room name)
qed

section \<open>Leaving a room\<close>

text \<open>
  A leave on the room \<open>constructor\<close>: \<open>removeParticipant\<close> raises, the handler logs the
  exception and emits nothing.
\<close>

lemma end_session_inherited_room:
  "snd (end_session initial ''A''
          (Some \<lparr>rp_roomId = Some ''constructor'', rp_username = Some ''bob''\<rparr>)) = []"
  by (simp add: end_session_def leave_room_def leave_name_def end_payload_def js_or_def
      truthy_def str_of_def Let_def socket_leave_def initial_def removeParticipant_def
      rooms_get_def object_prototype_def)

text \<open>
  Claim C7, as the specification states it: a second leave in a row emits no second
  \<open>user-left\<close>. The handler has no guard: after \<open>ann\<close> has left the room \<open>X\<close>, her second
  \<open>end-session\<close> sends \<open>participants\<close> and \<open>user-left\<close> to \<open>bob\<close> again.
\<close>

theorem second_leave_emits_user_left_again:
  "snd (end_session (fst (end_session two_joined ''A'' (Some ann))) ''A'' (Some ann)) =
     [Emit {''B''} (Participants [Str ''bob'']), Emit {''B''} (UserLeft ''ann'' [Str ''bob''])]"
  unfolding end_session_twice(2)[OF ann_leaves] by (rule ann_left_effects)

text \<open>
  Claim C7, amended. For a leave whose resolved room id and name are not empty, where the
  room id names no property of \<open>Object.prototype\<close> and the registry holds at it a \<open>Set\<close> or
  nothing: a second leave in a row leaves the whole state, the registry included, as the
  first left it, and emits again the two events of the first, \<open>participants\<close> and
  \<open>user-left\<close>, with the same payloads, to the connections that remain in the room. On
  such a room id \<open>removeParticipant\<close> raises nothing and is idempotent: removing again a
  name that was removed changes nothing, and neither does removing from a room that has
  no entry.
\<close>

theorem second_leave_keeps_state_repeats_events:
  assumes "truthy (leave_room st sid pl)" and "truthy (leave_name st sid pl)"
      and "\<not> inherited (str_of (leave_room st sid pl))"
      and "\<not> shadowed (rooms st) (str_of (leave_room st sid pl))"
      and "\<not> inherited r" and "\<not> shadowed reg r"
  shows "fst (end_session (fst (end_session st sid pl)) sid pl) = fst (end_session st sid pl)
       \<and> snd (end_session (fst (end_session st sid pl)) sid pl) = snd (end_session st sid pl)
       \<and> snd (end_session st sid pl) =
           [Emit (adapter st (str_of (leave_room st sid pl)) - {sid})
             (Participants (listParticipants (rooms (fst (end_session st sid pl)))
                              (str_of (leave_room st sid pl)))),
            Emit (adapter st (str_of (leave_room st sid pl)) - {sid})
             (UserLeft (str_of (leave_name st sid pl))
                (listParticipants (rooms (fst (end_session st sid pl)))
                   (str_of (leave_room st sid pl))))]
       \<and> fst (removeParticipant reg r u) = None
       \<and> removeParticipant (snd (removeParticipant reg r u)) r u
           = (None, snd (removeParticipant reg r u))
       \<and> (if reg r = None then removeParticipant reg r u = (None, reg) else True)"
proof -
  have first: "fst (removeParticipant reg r u) = None"
    by (simp add: remove_unshadowed[OF assms(5,6)])
  have keeps: "\<not> shadowed (snd (removeParticipant reg r u)) r"
    by (rule remove_unshadowed_keeps[OF assms(5,6)])
  have "fst (removeParticipant (snd (removeParticipant reg r u)) r u) = None"
    by (simp add: remove_unshadowed[OF assms(5) keeps])
  moreover have "snd (removeParticipant (snd (removeParticipant reg r u)) r u)
      = snd (removeParticipant reg r u)"
    by (rule removeParticipant_idem)
  ultimately have again: "removeParticipant (snd (removeParticipant reg r u)) r u
      = (None, snd (removeParticipant reg r u))"
    by (simp add: prod_eq_iff)
  have absent: "if reg r = None then removeParticipant reg r u = (None, reg) else True"
    by (simp add: remove_unshadowed[OF assms(5,6)])
  from end_session_twice[OF assms(1-4)] first again absent show ?thesis by simp
qed

theorem second_leave_keeps_state_repeats_events_witness:
  "truthy (leave_room two_joined ''A'' (Some ann)) \<and> truthy (leave_name two_joined ''A'' (Some ann))
   \<and> \<not> inherited (str_of (leave_room two_joined ''A'' (Some ann)))
   \<and> \<not> shadowed (rooms two_joined) (str_of (leave_room two_joined ''A'' (Some ann)))
   \<and> \<not> inherited ''X'' \<and> \<not> shadowed (rooms two_joined) ''X''
   \<and> fst (end_session (fst (end_session two_joined ''A'' (Some ann))) ''A'' (Some ann))
       = fst (end_session two_joined ''A'' (Some ann))
   \<and> snd (end_session (fst (end_session two_joined ''A'' (Some ann))) ''A'' (Some ann))
       = snd (end_session two_joined ''A'' (Some ann))
   \<and> fst (removeParticipant (rooms two_joined) ''X'' ''ann'') = None
   \<and> removeParticipant (snd (removeParticipant (rooms two_joined) ''X'' ''ann'')) ''X'' ''ann''
       = (None, snd (removeParticipant (rooms two_joined) ''X'' ''ann''))"
proof -
  have h1: "\<not> inherited ''X''" by simp
  have h2: "\<not> shadowed (rooms two_joined) ''X''"
    by (simp add: shadowed_def rooms_get_plain two_joined_eq)
  from second_leave_keeps_state_repeats_events[OF ann_leaves h1 h2, of "''ann''"] ann_leaves h1 h2
  show ?thesis by blast
qed

end
